theory Spec2Isabelle
  imports Main "HOL-Library.Multiset"
begin

section \<open>Values\<close>

text \<open>
  A request body is a JSON object. A property that the request leaves out reads as
  \<^verbatim>\<open>undefined\<close> when the handler destructures \<^verbatim>\<open>req.body\<close>, so a body is a function
  from property names to values that is \<open>JUndefined\<close> at every name the request
  does not carry. A property that is present holds \<^verbatim>\<open>null\<close>, a string, a boolean, a
  number, an array or an object.

  The handlers do three things with a value: they test it (\<^verbatim>\<open>x || ''\<close>,
  \<^verbatim>\<open>x !== undefined\<close>), they put it into a template literal, and they hand it to
  the driver as a query parameter. What a template literal and the driver make of
  a value that is not a string is decided outside \<^verbatim>\<open>server.js\<close>, so such a value
  carries the texts that are made of it:
  \<^item> a number is the text that \<^verbatim>\<open>Number.prototype.toString\<close> gives, which is what
    both the template literal and the driver use;
  \<^item> an array is the text of \<^verbatim>\<open>Array.prototype.toString\<close> (its elements joined
    by commas), which the template literal uses, and the text that the driver
    writes between the braces of the array literal it sends;
  \<^item> an object is the text that \<^verbatim>\<open>JSON.stringify\<close> writes between the braces of
    what the driver sends; in a template literal it is \<^verbatim>\<open>[object Object]\<close>.

  An array or object for which the template literal throws (one that has a
  property \<^verbatim>\<open>toString\<close> or \<^verbatim>\<open>valueOf\<close> of its own) is not modelled.
\<close>

datatype jsval =
    JUndefined
  | JNull
  | JStr string
  | JBool bool
  | JNum string
  | JArr string string
  | JObj string

type_synonym body = "string \<Rightarrow> jsval"

definition no_fields :: body where
  "no_fields = (\<lambda>k. JUndefined)"

text \<open>A column value of the store: \<open>None\<close> is SQL \<^verbatim>\<open>NULL\<close>.\<close>

type_synonym sqlval = "string option"

text \<open>
  The driver turns a query parameter into a column value: \<^verbatim>\<open>null\<close> and
  \<^verbatim>\<open>undefined\<close> are both sent as \<^verbatim>\<open>NULL\<close>, a string is sent as it is, a boolean
  and a number as their text, an array as an array literal and an object as its
  JSON text, both in braces.
\<close>

fun prepareValue :: "jsval \<Rightarrow> sqlval" where
  "prepareValue JUndefined = None"
| "prepareValue JNull = None"
| "prepareValue (JStr s) = Some s"
| "prepareValue (JBool b) = Some (if b then ''true'' else ''false'')"
| "prepareValue (JNum t) = Some t"
| "prepareValue (JArr t i) = Some (''{'' @ i @ ''}'')"
| "prepareValue (JObj i) = Some (''{'' @ i @ ''}'')"

text \<open>
  The expression \<^verbatim>\<open>x || ''\<close>: every falsy value gives the empty string. The falsy
  values are \<^verbatim>\<open>undefined\<close>, \<^verbatim>\<open>null\<close>, the empty string, \<^verbatim>\<open>false\<close> and the number
  zero.
\<close>

fun or_empty :: "jsval \<Rightarrow> jsval" where
  "or_empty JUndefined = JStr []"
| "or_empty JNull = JStr []"
| "or_empty (JStr s) = (if s = [] then JStr [] else JStr s)"
| "or_empty (JBool b) = (if b then JBool b else JStr [])"
| "or_empty (JNum t) = (if t = ''0'' then JStr [] else JNum t)"
| "or_empty (JArr t i) = JArr t i"
| "or_empty (JObj i) = JObj i"

text \<open>A value inside a template literal, \<^verbatim>\<open>`${x}`\<close>.\<close>

fun template :: "jsval \<Rightarrow> string" where
  "template JUndefined = ''undefined''"
| "template JNull = ''null''"
| "template (JStr s) = s"
| "template (JBool b) = (if b then ''true'' else ''false'')"
| "template (JNum t) = t"
| "template (JArr t i) = t"
| "template (JObj i) = ''[object Object]''"

text \<open>
  \<^verbatim>\<open>Date.now()\<close> is a parameter of the handlers that read the clock: a natural
  number, written in decimal inside a template literal.
\<close>

definition digit_char :: "nat \<Rightarrow> char" where
  "digit_char n = ''0123456789'' ! n"

fun decimal :: "nat \<Rightarrow> string" where
  "decimal n = (if n < 10 then [digit_char n] else decimal (n div 10) @ [digit_char (n mod 10)])"

declare decimal.simps [simp del]

section \<open>The store\<close>

text \<open>
  The three tables, as \<^verbatim>\<open>initDatabase\<close> creates them. A table is the list of its
  rows in the order in which \<^verbatim>\<open>SELECT *\<close> returns them: a row that is inserted,
  and the new version of a row that is updated, come after the rows that the
  statement leaves alone. No statement of \<^verbatim>\<open>server.js\<close> has an \<^verbatim>\<open>ORDER BY\<close>, and
  the properties of the \<^verbatim>\<open>UPDATE\<close> statements below compare a table as a multiset,
  not by position. Every column holds a \<open>sqlval\<close>. The constraints of the
  schema (\<^verbatim>\<open>PRIMARY KEY\<close>, \<^verbatim>\<open>NOT NULL\<close>, \<^verbatim>\<open>VARCHAR(n)\<close>,
  \<^verbatim>\<open>REFERENCES employees(id) ON DELETE CASCADE\<close>) are checked by the statements
  that write, below. A string is a sequence of characters, and the length of a
  \<^verbatim>\<open>VARCHAR\<close> counts them; strings are taken to be text that the encoding of
  the store accepts.
\<close>

record employee_row =
  emp_id :: sqlval
  emp_name :: sqlval
  emp_email :: sqlval
  emp_phone :: sqlval
  emp_address :: sqlval
  emp_department :: sqlval
  emp_outlet :: sqlval

record department_row =
  dept_id :: sqlval
  dept_name :: sqlval
  dept_description :: sqlval
  dept_outlet :: sqlval

record attendance_row =
  att_id :: sqlval
  att_employee_id :: sqlval
  att_date :: sqlval
  att_status :: sqlval
  att_outlet :: sqlval

text \<open>The statements of \<^verbatim>\<open>server.js\<close>, one constructor for each SQL text.\<close>

datatype stmt =
    SelectEmployees
  | InsertEmployee
  | UpdateEmployee
  | DeleteAttendanceOfEmployee
  | DeleteEmployee
  | SelectDepartments
  | InsertDepartment
  | DeleteDepartment
  | SelectAttendance
  | SelectEmployeeOutlet
  | SelectAttendanceFor
  | UpdateAttendanceStatus
  | InsertAttendance
  | DeleteAttendanceFor

text \<open>
  The store holds the tables and the sequence of statements it has received from
  the handlers, so that "the handler did not reach the store" is a property of the
  state. The statements of the start of the server (the test of the connection and
  the three \<^verbatim>\<open>CREATE TABLE IF NOT EXISTS\<close>) come before every request and are not
  recorded: the model starts with the tables in place.
\<close>

record store =
  employees :: "employee_row list"
  departments :: "department_row list"
  attendance :: "attendance_row list"
  issued :: "stmt list"

definition empty_store :: store where
  "empty_store = \<lparr>employees = [], departments = [], attendance = [], issued = []\<rparr>"

definition issue :: "stmt \<Rightarrow> store \<Rightarrow> store" where
  "issue q st = st\<lparr>issued := issued st @ [q]\<rparr>"

datatype store_error =
    StringTooLong
  | NotNullViolation
  | UniqueViolation
  | ForeignKeyViolation

text \<open>
  Storing a value in a \<^verbatim>\<open>VARCHAR(n)\<close> column: a longer string is an error unless
  the characters beyond \<open>n\<close> are all spaces, and then the string is cut to \<open>n\<close>
  characters. \<^verbatim>\<open>NULL\<close> has no length.
\<close>

definition too_long :: "nat \<Rightarrow> sqlval \<Rightarrow> bool" where
  "too_long n v = (case v of None \<Rightarrow> False
                   | Some s \<Rightarrow> filter (\<lambda>c. c \<noteq> CHR '' '') (drop n s) \<noteq> [])"

definition varchar :: "nat \<Rightarrow> sqlval \<Rightarrow> sqlval" where
  "varchar n v = map_option (take n) v"

text \<open>A comparison \<^verbatim>\<open>column = $k\<close> of a \<^verbatim>\<open>WHERE\<close> clause: never true of \<^verbatim>\<open>NULL\<close>.\<close>

definition sql_eq :: "sqlval \<Rightarrow> sqlval \<Rightarrow> bool" where
  "sql_eq c p = (case p of None \<Rightarrow> False | Some s \<Rightarrow> c = Some s)"

subsection \<open>Statements on \<^verbatim>\<open>attendance\<close>\<close>

text \<open>\<^verbatim>\<open>SELECT * FROM attendance\<close>\<close>

definition select_attendance :: "store \<Rightarrow> attendance_row list \<times> store" where
  "select_attendance st = (attendance st, issue SelectAttendance st)"

text \<open>\<^verbatim>\<open>SELECT outlet FROM employees WHERE id = $1\<close>\<close>

definition select_employee_outlet :: "sqlval \<Rightarrow> store \<Rightarrow> sqlval list \<times> store" where
  "select_employee_outlet p1 st =
     (map emp_outlet (filter (\<lambda>r. sql_eq (emp_id r) p1) (employees st)),
      issue SelectEmployeeOutlet st)"

text \<open>\<^verbatim>\<open>SELECT * FROM attendance WHERE employee_id = $1 AND date = $2\<close>\<close>

definition att_match :: "sqlval \<Rightarrow> sqlval \<Rightarrow> attendance_row \<Rightarrow> bool" where
  "att_match p1 p2 r = (sql_eq (att_employee_id r) p1 \<and> sql_eq (att_date r) p2)"

definition select_attendance_for ::
  "sqlval \<Rightarrow> sqlval \<Rightarrow> store \<Rightarrow> attendance_row list \<times> store" where
  "select_attendance_for p1 p2 st =
     (filter (att_match p1 p2) (attendance st), issue SelectAttendanceFor st)"

text \<open>
  \<^verbatim>\<open>UPDATE attendance SET status = $1 WHERE employee_id = $2 AND date = $3 RETURNING *\<close>.
  The new status is coerced to \<^verbatim>\<open>VARCHAR(50)\<close> before any row is looked at;
  \<^verbatim>\<open>NOT NULL\<close> is checked on the rows that are updated. The new versions of
  the rows that are updated come after the rows that are left alone, and
  \<^verbatim>\<open>RETURNING *\<close> gives them in the order in which the old ones were found.
\<close>

definition update_attendance_status ::
  "sqlval \<Rightarrow> sqlval \<Rightarrow> sqlval \<Rightarrow> store \<Rightarrow> (store_error + attendance_row list) \<times> store" where
  "update_attendance_status p1 p2 p3 st =
     (let st' = issue UpdateAttendanceStatus st;
          rows = map (\<lambda>r. r\<lparr>att_status := varchar 50 p1\<rparr>)
                   (filter (att_match p2 p3) (attendance st))
      in if too_long 50 p1 then (Inl StringTooLong, st')
         else if p1 = None \<and> filter (att_match p2 p3) (attendance st) \<noteq> []
           then (Inl NotNullViolation, st')
         else (Inr rows,
               st'\<lparr>attendance := filter (\<lambda>r. \<not> att_match p2 p3 r) (attendance st) @ rows\<rparr>))"

text \<open>
  \<^verbatim>\<open>INSERT INTO attendance (id, employee_id, date, status, outlet)
  VALUES ($1, $2, $3, $4, $5) RETURNING *\<close>.
  The values are coerced to the column types, then \<^verbatim>\<open>NOT NULL\<close>, the primary key
  and the foreign key are checked, in this order. A \<^verbatim>\<open>NULL\<close> \<^verbatim>\<open>employee_id\<close>
  satisfies the foreign key.
\<close>

definition insert_attendance ::
  "sqlval \<Rightarrow> sqlval \<Rightarrow> sqlval \<Rightarrow> sqlval \<Rightarrow> sqlval \<Rightarrow> store
     \<Rightarrow> (store_error + attendance_row list) \<times> store" where
  "insert_attendance p1 p2 p3 p4 p5 st =
     (let st' = issue InsertAttendance st;
          row = \<lparr>att_id = varchar 255 p1, att_employee_id = varchar 255 p2,
                 att_date = varchar 255 p3, att_status = varchar 50 p4,
                 att_outlet = varchar 255 p5\<rparr>
      in if too_long 255 p1 \<or> too_long 255 p2 \<or> too_long 255 p3 \<or> too_long 50 p4
            \<or> too_long 255 p5
           then (Inl StringTooLong, st')
         else if p1 = None \<or> p3 = None \<or> p4 = None then (Inl NotNullViolation, st')
         else if att_id row \<in> set (map att_id (attendance st)) then (Inl UniqueViolation, st')
         else if p2 \<noteq> None \<and> att_employee_id row \<notin> set (map emp_id (employees st))
           then (Inl ForeignKeyViolation, st')
         else (Inr [row], st'\<lparr>attendance := attendance st @ [row]\<rparr>))"

text \<open>\<^verbatim>\<open>DELETE FROM attendance WHERE employee_id = $1 AND date = $2 RETURNING *\<close>\<close>

definition delete_attendance_for ::
  "sqlval \<Rightarrow> sqlval \<Rightarrow> store \<Rightarrow> attendance_row list \<times> store" where
  "delete_attendance_for p1 p2 st =
     (filter (att_match p1 p2) (attendance st),
      (issue DeleteAttendanceFor st)
        \<lparr>attendance := filter (\<lambda>r. \<not> att_match p1 p2 r) (attendance st)\<rparr>)"

subsection \<open>Statements on \<^verbatim>\<open>employees\<close>\<close>

text \<open>\<^verbatim>\<open>SELECT * FROM employees\<close>\<close>

definition select_employees :: "store \<Rightarrow> employee_row list \<times> store" where
  "select_employees st = (employees st, issue SelectEmployees st)"

text \<open>
  \<^verbatim>\<open>INSERT INTO employees (id, name, email, phone, address, department, outlet)
  VALUES ($1, $2, $3, $4, $5, $6, $7) RETURNING *\<close>.
  \<^verbatim>\<open>address\<close> is \<^verbatim>\<open>TEXT\<close>, the other columns are \<^verbatim>\<open>VARCHAR(255)\<close>; \<^verbatim>\<open>id\<close> is the
  primary key and \<^verbatim>\<open>name\<close> is \<^verbatim>\<open>NOT NULL\<close>.
\<close>

definition insert_employee ::
  "sqlval \<Rightarrow> sqlval \<Rightarrow> sqlval \<Rightarrow> sqlval \<Rightarrow> sqlval \<Rightarrow> sqlval \<Rightarrow> sqlval \<Rightarrow> store
     \<Rightarrow> (store_error + employee_row list) \<times> store" where
  "insert_employee p1 p2 p3 p4 p5 p6 p7 st =
     (let st' = issue InsertEmployee st;
          row = \<lparr>emp_id = varchar 255 p1, emp_name = varchar 255 p2,
                 emp_email = varchar 255 p3, emp_phone = varchar 255 p4,
                 emp_address = p5, emp_department = varchar 255 p6,
                 emp_outlet = varchar 255 p7\<rparr>
      in if too_long 255 p1 \<or> too_long 255 p2 \<or> too_long 255 p3 \<or> too_long 255 p4
            \<or> too_long 255 p6 \<or> too_long 255 p7
           then (Inl StringTooLong, st')
         else if p1 = None \<or> p2 = None then (Inl NotNullViolation, st')
         else if emp_id row \<in> set (map emp_id (employees st)) then (Inl UniqueViolation, st')
         else (Inr [row], st'\<lparr>employees := employees st @ [row]\<rparr>))"

text \<open>
  \<^verbatim>\<open>UPDATE employees SET c1 = $1, ..., ck = $k WHERE id = $k+1 RETURNING *\<close>, the
  statement that the \<^verbatim>\<open>PATCH\<close> handler builds: the columns to set come with their
  values, in the order in which the handler pushes them. The new version of a row
  that is updated comes after the rows that are left alone.
\<close>

datatype emp_col = ColName | ColEmail | ColPhone | ColAddress | ColDepartment | ColOutlet

fun col_too_long :: "emp_col \<times> sqlval \<Rightarrow> bool" where
  "col_too_long (ColAddress, v) = False"
| "col_too_long (c, v) = too_long 255 v"

fun set_col :: "emp_col \<times> sqlval \<Rightarrow> employee_row \<Rightarrow> employee_row" where
  "set_col (ColName, v) r = r\<lparr>emp_name := varchar 255 v\<rparr>"
| "set_col (ColEmail, v) r = r\<lparr>emp_email := varchar 255 v\<rparr>"
| "set_col (ColPhone, v) r = r\<lparr>emp_phone := varchar 255 v\<rparr>"
| "set_col (ColAddress, v) r = r\<lparr>emp_address := v\<rparr>"
| "set_col (ColDepartment, v) r = r\<lparr>emp_department := varchar 255 v\<rparr>"
| "set_col (ColOutlet, v) r = r\<lparr>emp_outlet := varchar 255 v\<rparr>"

definition update_employee ::
  "(emp_col \<times> sqlval) list \<Rightarrow> sqlval \<Rightarrow> store \<Rightarrow> (store_error + employee_row list) \<times> store" where
  "update_employee sets p st =
     (let st' = issue UpdateEmployee st;
          rows = map (fold set_col sets) (filter (\<lambda>r. sql_eq (emp_id r) p) (employees st))
      in if filter col_too_long sets \<noteq> [] then (Inl StringTooLong, st')
         else if filter (\<lambda>r. emp_name r = None) rows \<noteq> [] then (Inl NotNullViolation, st')
         else (Inr rows,
               st'\<lparr>employees := filter (\<lambda>r. \<not> sql_eq (emp_id r) p) (employees st) @ rows\<rparr>))"

text \<open>\<^verbatim>\<open>DELETE FROM attendance WHERE employee_id = $1\<close>\<close>

definition delete_attendance_of_employee :: "sqlval \<Rightarrow> store \<Rightarrow> store" where
  "delete_attendance_of_employee p st =
     (issue DeleteAttendanceOfEmployee st)
       \<lparr>attendance := filter (\<lambda>r. \<not> sql_eq (att_employee_id r) p) (attendance st)\<rparr>"

text \<open>
  \<^verbatim>\<open>DELETE FROM employees WHERE id = $1 RETURNING *\<close>. The foreign key of
  \<^verbatim>\<open>attendance\<close> is declared \<^verbatim>\<open>ON DELETE CASCADE\<close>: the attendance rows that
  reference a deleted employee go with it.
\<close>

definition delete_employee :: "sqlval \<Rightarrow> store \<Rightarrow> employee_row list \<times> store" where
  "delete_employee p st =
     (let rows = filter (\<lambda>r. sql_eq (emp_id r) p) (employees st)
      in (rows,
          (issue DeleteEmployee st)
            \<lparr>employees := filter (\<lambda>r. \<not> sql_eq (emp_id r) p) (employees st),
             attendance := filter (\<lambda>r. att_employee_id r = None
                                       \<or> att_employee_id r \<notin> set (map emp_id rows))
                             (attendance st)\<rparr>))"

subsection \<open>Statements on \<^verbatim>\<open>departments\<close>\<close>

text \<open>\<^verbatim>\<open>SELECT * FROM departments\<close>\<close>

definition select_departments :: "store \<Rightarrow> department_row list \<times> store" where
  "select_departments st = (departments st, issue SelectDepartments st)"

text \<open>
  \<^verbatim>\<open>INSERT INTO departments (id, name, description, outlet)
  VALUES ($1, $2, $3, $4) RETURNING *\<close>; \<^verbatim>\<open>description\<close> is \<^verbatim>\<open>TEXT\<close>.
\<close>

definition insert_department ::
  "sqlval \<Rightarrow> sqlval \<Rightarrow> sqlval \<Rightarrow> sqlval \<Rightarrow> store
     \<Rightarrow> (store_error + department_row list) \<times> store" where
  "insert_department p1 p2 p3 p4 st =
     (let st' = issue InsertDepartment st;
          row = \<lparr>dept_id = varchar 255 p1, dept_name = varchar 255 p2,
                 dept_description = p3, dept_outlet = varchar 255 p4\<rparr>
      in if too_long 255 p1 \<or> too_long 255 p2 \<or> too_long 255 p4
           then (Inl StringTooLong, st')
         else if p1 = None \<or> p2 = None then (Inl NotNullViolation, st')
         else if dept_id row \<in> set (map dept_id (departments st))
           then (Inl UniqueViolation, st')
         else (Inr [row], st'\<lparr>departments := departments st @ [row]\<rparr>))"

text \<open>\<^verbatim>\<open>DELETE FROM departments WHERE id = $1 RETURNING *\<close>\<close>

definition delete_department :: "sqlval \<Rightarrow> store \<Rightarrow> department_row list \<times> store" where
  "delete_department p st =
     (filter (\<lambda>r. sql_eq (dept_id r) p) (departments st),
      (issue DeleteDepartment st)
        \<lparr>departments := filter (\<lambda>r. \<not> sql_eq (dept_id r) p) (departments st)\<rparr>)"

section \<open>Responses\<close>

text \<open>
  The JSON that a handler sends. The attendance handlers rename the column
  \<^verbatim>\<open>employee_id\<close> to \<^verbatim>\<open>employeeId\<close>; the other handlers send rows as the store
  returns them. \<open>StoreFailure\<close> is \<^verbatim>\<open>{ error: error.message }\<close> with the message
  of the store, \<open>TypeError\<close> the same with the message of a JavaScript
  \<^verbatim>\<open>TypeError\<close>, \<open>NoBody\<close> what \<^verbatim>\<open>res.json(undefined)\<close> sends.
\<close>

record attendance_json =
  aj_id :: sqlval
  aj_employeeId :: sqlval
  aj_date :: sqlval
  aj_status :: sqlval
  aj_outlet :: sqlval

datatype payload =
    Error string
  | StoreFailure store_error
  | TypeError
  | NoBody
  | Success
  | Employee employee_row
  | Employees "employee_row list"
  | Department department_row
  | Departments "department_row list"
  | Attendance attendance_json
  | Attendances "attendance_json list"

record response =
  status :: nat
  json :: payload

definition respond :: "nat \<Rightarrow> payload \<Rightarrow> response" where
  "respond c p = \<lparr>status = c, json = p\<rparr>"

definition unavailable :: response where
  "unavailable = respond 503 (Error ''Database not available'')"

definition to_json :: "attendance_row \<Rightarrow> attendance_json" where
  "to_json row = \<lparr>aj_id = att_id row, aj_employeeId = att_employee_id row,
                   aj_date = att_date row, aj_status = att_status row,
                   aj_outlet = att_outlet row\<rparr>"

section \<open>The employee handlers\<close>

text \<open>\<^verbatim>\<open>GET /api/employees\<close>\<close>

definition get_employees :: "bool \<Rightarrow> store \<Rightarrow> response \<times> store" where
  "get_employees pool st =
     (if \<not> pool then (unavailable, st)
      else case select_employees st of
             (rows, st1) \<Rightarrow> (respond 200 (Employees rows), st1))"

text \<open>\<^verbatim>\<open>POST /api/employees\<close>; \<open>now\<close> is the value of \<^verbatim>\<open>Date.now()\<close>.\<close>

definition post_employees :: "bool \<Rightarrow> nat \<Rightarrow> body \<Rightarrow> store \<Rightarrow> response \<times> store" where
  "post_employees pool now b st =
     (if \<not> pool then (unavailable, st)
      else
        let name = b ''name''; email = b ''email''; phone = b ''phone'';
            address = b ''address''; department = b ''department''; outlet = b ''outlet'';
            eid = ''emp-'' @ decimal now
        in (case insert_employee (Some eid) (prepareValue name) (prepareValue (or_empty email))
                   (prepareValue phone) (prepareValue (or_empty address))
                   (prepareValue (or_empty department)) (prepareValue outlet) st of
              (Inl err, st1) \<Rightarrow> (respond 500 (StoreFailure err), st1)
            | (Inr [], st1) \<Rightarrow> (respond 201 NoBody, st1)
            | (Inr (row # _), st1) \<Rightarrow> (respond 201 (Employee row), st1)))"

text \<open>
  \<^verbatim>\<open>PATCH /api/employees/:id\<close>. The handler pushes a column and its value for
  every property that is not \<^verbatim>\<open>undefined\<close>, in this order.
\<close>

definition provided :: "emp_col \<Rightarrow> jsval \<Rightarrow> (emp_col \<times> sqlval) list" where
  "provided c v = (if v \<noteq> JUndefined then [(c, prepareValue v)] else [])"

definition updateFields :: "body \<Rightarrow> (emp_col \<times> sqlval) list" where
  "updateFields b =
     provided ColName (b ''name'') @ provided ColEmail (b ''email'')
     @ provided ColPhone (b ''phone'') @ provided ColAddress (b ''address'')
     @ provided ColDepartment (b ''department'') @ provided ColOutlet (b ''outlet'')"

definition patch_employees :: "bool \<Rightarrow> string \<Rightarrow> body \<Rightarrow> store \<Rightarrow> response \<times> store" where
  "patch_employees pool eid b st =
     (if \<not> pool then (unavailable, st)
      else if length (updateFields b) = 0
        then (respond 400 (Error ''No fields to update''), st)
      else (case update_employee (updateFields b) (Some eid) st of
              (Inl err, st1) \<Rightarrow> (respond 500 (StoreFailure err), st1)
            | (Inr [], st1) \<Rightarrow> (respond 404 (Error ''Employee not found''), st1)
            | (Inr (row # _), st1) \<Rightarrow> (respond 200 (Employee row), st1)))"

text \<open>
  \<^verbatim>\<open>DELETE /api/employees/:id\<close>: first the attendance rows of the employee, then
  the employee.
\<close>

definition delete_employees :: "bool \<Rightarrow> string \<Rightarrow> store \<Rightarrow> response \<times> store" where
  "delete_employees pool eid st =
     (if \<not> pool then (unavailable, st)
      else
        let st1 = delete_attendance_of_employee (Some eid) st
        in (case delete_employee (Some eid) st1 of
              (rows, st2) \<Rightarrow>
                if length rows = 0 then (respond 404 (Error ''Employee not found''), st2)
                else (respond 200 Success, st2)))"

section \<open>The department handlers\<close>

text \<open>\<^verbatim>\<open>GET /api/departments\<close>\<close>

definition get_departments :: "bool \<Rightarrow> store \<Rightarrow> response \<times> store" where
  "get_departments pool st =
     (if \<not> pool then (unavailable, st)
      else case select_departments st of
             (rows, st1) \<Rightarrow> (respond 200 (Departments rows), st1))"

text \<open>\<^verbatim>\<open>POST /api/departments\<close>\<close>

definition post_departments :: "bool \<Rightarrow> nat \<Rightarrow> body \<Rightarrow> store \<Rightarrow> response \<times> store" where
  "post_departments pool now b st =
     (if \<not> pool then (unavailable, st)
      else
        let name = b ''name''; description = b ''description''; outlet = b ''outlet'';
            did = ''dept-'' @ decimal now
        in (case insert_department (Some did) (prepareValue name)
                   (prepareValue (or_empty description)) (prepareValue outlet) st of
              (Inl err, st1) \<Rightarrow> (respond 500 (StoreFailure err), st1)
            | (Inr [], st1) \<Rightarrow> (respond 201 NoBody, st1)
            | (Inr (row # _), st1) \<Rightarrow> (respond 201 (Department row), st1)))"

text \<open>\<^verbatim>\<open>DELETE /api/departments/:id\<close>\<close>

definition delete_departments :: "bool \<Rightarrow> string \<Rightarrow> store \<Rightarrow> response \<times> store" where
  "delete_departments pool did st =
     (if \<not> pool then (unavailable, st)
      else case delete_department (Some did) st of
             (rows, st1) \<Rightarrow>
               if length rows = 0 then (respond 404 (Error ''Department not found''), st1)
               else (respond 200 Success, st1))"

section \<open>The attendance handlers\<close>

text \<open>The id of an attendance row: \<^verbatim>\<open>`${employeeId}-${date}`\<close>.\<close>

definition attendance_id :: "jsval \<Rightarrow> jsval \<Rightarrow> string" where
  "attendance_id employeeId date = template employeeId @ ''-'' @ template date"

text \<open>\<^verbatim>\<open>GET /api/attendance\<close>\<close>

definition get_attendance :: "bool \<Rightarrow> store \<Rightarrow> response \<times> store" where
  "get_attendance pool st =
     (if \<not> pool then (unavailable, st)
      else case select_attendance st of
             (rows, st1) \<Rightarrow> (respond 200 (Attendances (map to_json rows)), st1))"

text \<open>
  \<^verbatim>\<open>POST /api/attendance\<close>, the upsert. \<open>pool\<close> says whether the connection pool
  exists. Reading \<^verbatim>\<open>result.rows[0].id\<close> of an empty result throws a
  \<^verbatim>\<open>TypeError\<close>, which the handler's \<^verbatim>\<open>catch\<close> reports as a 500 like a failure of
  the store.
\<close>

definition post_attendance :: "bool \<Rightarrow> body \<Rightarrow> store \<Rightarrow> response \<times> store" where
  "post_attendance pool b st =
     (if \<not> pool then (unavailable, st)
      else
        let employeeId = b ''employeeId''; date = b ''date''; status = b ''status'';
            aid = attendance_id employeeId date
        in (case select_employee_outlet (prepareValue employeeId) st of
             (employeeResult, st1) \<Rightarrow>
        (let outlet = (case employeeResult of [] \<Rightarrow> None | r # _ \<Rightarrow> r)
         in (case select_attendance_for (prepareValue employeeId) (prepareValue date) st1 of
              (existingRecord, st2) \<Rightarrow>
        (case (if existingRecord \<noteq> []
               then update_attendance_status (prepareValue status) (prepareValue employeeId)
                      (prepareValue date) st2
               else insert_attendance (Some aid) (prepareValue employeeId) (prepareValue date)
                      (prepareValue status) outlet st2) of
           (Inl err, st3) \<Rightarrow> (respond 500 (StoreFailure err), st3)
         | (Inr [], st3) \<Rightarrow> (respond 500 TypeError, st3)
         | (Inr (row # _), st3) \<Rightarrow>
             (respond (if existingRecord \<noteq> [] then 200 else 201)
                (Attendance (to_json row)), st3))))))"

text \<open>\<^verbatim>\<open>DELETE /api/attendance/:employeeId/:date\<close>\<close>

definition delete_attendance :: "bool \<Rightarrow> string \<Rightarrow> string \<Rightarrow> store \<Rightarrow> response \<times> store" where
  "delete_attendance pool employeeId date st =
     (if \<not> pool then (unavailable, st)
      else case delete_attendance_for (Some employeeId) (Some date) st of
             (rows, st1) \<Rightarrow>
               if rows = [] then (respond 404 (Error ''Attendance record not found''), st1)
               else (respond 200 Success, st1))"

section \<open>The data endpoints\<close>

text \<open>
  The ten routes under \<^verbatim>\<open>/api/employees\<close>, \<^verbatim>\<open>/api/departments\<close> and
  \<^verbatim>\<open>/api/attendance\<close>. A request is handled from its first statement to its
  response before the next one starts: the model has no interleaving of handlers.
  The store is reachable and holds the three tables as declared; a failure of the
  connection is not modelled.
\<close>

datatype request =
    GET_employees
  | POST_employees nat body
  | PATCH_employees string body
  | DELETE_employees string
  | GET_departments
  | POST_departments nat body
  | DELETE_departments string
  | GET_attendance
  | POST_attendance body
  | DELETE_attendance string string

fun handle :: "bool \<Rightarrow> request \<Rightarrow> store \<Rightarrow> response \<times> store" where
  "handle pool GET_employees st = get_employees pool st"
| "handle pool (POST_employees now b) st = post_employees pool now b st"
| "handle pool (PATCH_employees eid b) st = patch_employees pool eid b st"
| "handle pool (DELETE_employees eid) st = delete_employees pool eid st"
| "handle pool GET_departments st = get_departments pool st"
| "handle pool (POST_departments now b) st = post_departments pool now b st"
| "handle pool (DELETE_departments did) st = delete_departments pool did st"
| "handle pool GET_attendance st = get_attendance pool st"
| "handle pool (POST_attendance b) st = post_attendance pool b st"
| "handle pool (DELETE_attendance employeeId date) st = delete_attendance pool employeeId date st"

text \<open>The store after a sequence of requests.\<close>

fun run :: "bool \<Rightarrow> request list \<Rightarrow> store \<Rightarrow> store" where
  "run pool [] st = st"
| "run pool (r # rs) st = run pool rs (snd (handle pool r st))"

section \<open>The declared schema as a property of the store\<close>

text \<open>
  What the \<^verbatim>\<open>CREATE TABLE\<close> statements promise of every row: the primary keys
  are present and distinct, the \<^verbatim>\<open>NOT NULL\<close> columns are present, a
  \<^verbatim>\<open>VARCHAR(n)\<close> column holds at most \<open>n\<close> characters, and an
  \<^verbatim>\<open>employee_id\<close> that is not \<^verbatim>\<open>NULL\<close> is the id of an employee.
\<close>

definition fits :: "nat \<Rightarrow> sqlval \<Rightarrow> bool" where
  "fits n v = (case v of None \<Rightarrow> True | Some s \<Rightarrow> length s \<le> n)"

definition employee_fits :: "employee_row \<Rightarrow> bool" where
  "employee_fits r =
     (emp_id r \<noteq> None \<and> fits 255 (emp_id r) \<and> fits 255 (emp_name r)
      \<and> fits 255 (emp_email r) \<and> fits 255 (emp_phone r)
      \<and> fits 255 (emp_department r) \<and> fits 255 (emp_outlet r))"

definition employee_ok :: "employee_row \<Rightarrow> bool" where
  "employee_ok r = (employee_fits r \<and> emp_name r \<noteq> None)"

definition department_ok :: "department_row \<Rightarrow> bool" where
  "department_ok r =
     (dept_id r \<noteq> None \<and> dept_name r \<noteq> None \<and> fits 255 (dept_id r)
      \<and> fits 255 (dept_name r) \<and> fits 255 (dept_outlet r))"

definition attendance_ok :: "sqlval list \<Rightarrow> attendance_row \<Rightarrow> bool" where
  "attendance_ok ids r =
     (att_id r \<noteq> None \<and> att_date r \<noteq> None \<and> att_status r \<noteq> None
      \<and> fits 255 (att_id r) \<and> fits 255 (att_employee_id r) \<and> fits 255 (att_date r)
      \<and> fits 50 (att_status r) \<and> fits 255 (att_outlet r)
      \<and> (att_employee_id r = None \<or> att_employee_id r \<in> set ids))"

definition schema_ok :: "store \<Rightarrow> bool" where
  "schema_ok st =
     (list_all employee_ok (employees st) \<and> distinct (map emp_id (employees st))
      \<and> list_all department_ok (departments st) \<and> distinct (map dept_id (departments st))
      \<and> list_all (attendance_ok (map emp_id (employees st))) (attendance st)
      \<and> distinct (map att_id (attendance st)))"

text \<open>
  The id of an attendance row that has an employee is the one the upsert makes
  from the row's employee and date, as far as the column holds it, unless the date
  ends with a closing brace, as the text of an array or an object does.
\<close>

definition synthesized :: "attendance_row \<Rightarrow> bool" where
  "synthesized r =
     (case att_employee_id r of None \<Rightarrow> True
      | Some e \<Rightarrow> (case att_date r of None \<Rightarrow> True
                   | Some d \<Rightarrow> (d \<noteq> [] \<and> last d = CHR ''}'')
                               \<or> att_id r = Some (take 255 (e @ ''-'' @ d))))"

text \<open>No employee id begins with an opening brace, as such a text does.\<close>

definition plain_ids :: "store \<Rightarrow> bool" where
  "plain_ids st =
     list_all (\<lambda>r. case emp_id r of None \<Rightarrow> True | Some i \<Rightarrow> take 1 i \<noteq> ''{'')
       (employees st)"

text \<open>
  The pairs of employee and date of the attendance rows that have an employee, and
  the property that no pair occurs twice.
\<close>

definition pairs :: "store \<Rightarrow> (sqlval \<times> sqlval) list" where
  "pairs st = map (\<lambda>r. (att_employee_id r, att_date r))
                (filter (\<lambda>r. att_employee_id r \<noteq> None) (attendance st))"

definition one_row_per_pair :: "store \<Rightarrow> bool" where
  "one_row_per_pair st = distinct (pairs st)"

text \<open>All pairs, the rows without an employee included.\<close>

definition all_pairs :: "store \<Rightarrow> (sqlval \<times> sqlval) list" where
  "all_pairs st = map (\<lambda>r. (att_employee_id r, att_date r)) (attendance st)"

text \<open>
  The property that every request preserves when requests are handled one after
  the other.
\<close>

definition store_inv :: "store \<Rightarrow> bool" where
  "store_inv st =
     (schema_ok st \<and> plain_ids st \<and> list_all synthesized (attendance st)
      \<and> one_row_per_pair st)"

section \<open>The upsert, statement by statement\<close>

text \<open>
  The outlet that \<^verbatim>\<open>POST /api/attendance\<close> resolves: the \<^verbatim>\<open>outlet\<close> of the first row
  that \<^verbatim>\<open>SELECT outlet FROM employees WHERE id = $1\<close> returns, \<^verbatim>\<open>null\<close> when it
  returns none.
\<close>

definition resolved_outlet :: "sqlval \<Rightarrow> store \<Rightarrow> sqlval" where
  "resolved_outlet p st =
     (case fst (select_employee_outlet p st) of [] \<Rightarrow> None | r # _ \<Rightarrow> r)"

text \<open>
  The statements of the upsert and the result of its last one; the lemma
  \<open>post_attendance_upsert_store\<close> below shows that the handler is this, followed by
  the response.
\<close>

definition upsert_store :: "body \<Rightarrow> store \<Rightarrow> (store_error + attendance_row list) \<times> store" where
  "upsert_store b st =
     (let e = prepareValue (b ''employeeId''); d = prepareValue (b ''date'');
          s = prepareValue (b ''status'');
          st2 = issue SelectAttendanceFor (issue SelectEmployeeOutlet st)
      in if filter (att_match e d) (attendance st) \<noteq> []
         then update_attendance_status s e d st2
         else insert_attendance (Some (attendance_id (b ''employeeId'') (b ''date''))) e d s
                (resolved_outlet e st) st2)"

section \<open>Example stores and requests\<close>

text \<open>
  Concrete values at which the properties below are evaluated. \<open>ann\<close> is the row
  that \<^verbatim>\<open>POST /api/employees\<close> stores for \<open>ann_body\<close> when \<^verbatim>\<open>Date.now()\<close> is 1.
\<close>

definition ann_body :: body where
  "ann_body = no_fields(''name'' := JStr ''Ann'', ''outlet'' := JStr ''North'')"

definition sales_body :: body where
  "sales_body = no_fields(''name'' := JStr ''Sales'', ''outlet'' := JStr ''HQ'')"

definition ann :: employee_row where
  "ann = \<lparr>emp_id = Some ''emp-1'', emp_name = Some ''Ann'', emp_email = Some [],
           emp_phone = None, emp_address = Some [], emp_department = Some [],
           emp_outlet = Some ''North''\<rparr>"

definition sales :: department_row where
  "sales = \<lparr>dept_id = Some ''dept-1'', dept_name = Some ''Sales'',
             dept_description = Some [], dept_outlet = Some ''HQ''\<rparr>"

definition present_body :: body where
  "present_body = no_fields(''employeeId'' := JStr ''emp-1'', ''date'' := JStr ''2024-01-01'',
     ''status'' := JStr ''present'')"

definition absent_body :: body where
  "absent_body = no_fields(''employeeId'' := JStr ''emp-1'', ''date'' := JStr ''2024-01-01'',
     ''status'' := JStr ''absent'')"

definition day_row :: attendance_row where
  "day_row = \<lparr>att_id = Some ''emp-1-2024-01-01'', att_employee_id = Some ''emp-1'',
               att_date = Some ''2024-01-01'', att_status = Some ''present'',
               att_outlet = Some ''North''\<rparr>"

text \<open>Ann alone; Ann moved to the outlet South after her attendance was recorded.\<close>

definition north_store :: store where
  "north_store = empty_store\<lparr>employees := [ann]\<rparr>"

definition south_store :: store where
  "south_store = empty_store\<lparr>employees := [ann\<lparr>emp_outlet := Some ''South''\<rparr>],
                              attendance := [day_row]\<rparr>"

text \<open>A request for an employee that \<open>north_store\<close> does not have.\<close>

definition stranger_body :: body where
  "stranger_body = no_fields(''employeeId'' := JStr ''emp-2'', ''date'' := JStr ''2024-01-01'',
     ''status'' := JStr ''present'')"

text \<open>Requests that leave \<^verbatim>\<open>employeeId\<close> out, or send it as \<^verbatim>\<open>null\<close>.\<close>

definition anonymous_body :: body where
  "anonymous_body = no_fields(''date'' := JStr ''2024-01-01'', ''status'' := JStr ''present'')"

definition null_body :: body where
  "null_body = no_fields(''employeeId'' := JNull, ''date'' := JStr ''2024-01-01'',
     ''status'' := JStr ''present'')"

text \<open>
  Two employees of which one id is the other followed by \<^verbatim>\<open>-2\<close>, and an attendance
  row of the longer one.
\<close>

definition collision_store :: store where
  "collision_store = empty_store
     \<lparr>employees := [ann, ann\<lparr>emp_id := Some ''emp-1-2'', emp_name := Some ''Bob''\<rparr>],
      attendance := [\<lparr>att_id = Some ''emp-1-2-2024-01-01'',
                        att_employee_id = Some ''emp-1-2'', att_date = Some ''2024-01-01'',
                        att_status = Some ''present'', att_outlet = Some ''North''\<rparr>]\<rparr>"

definition collision_body :: body where
  "collision_body = no_fields(''employeeId'' := JStr ''emp-1'',
     ''date'' := JStr ''2-2024-01-01'', ''status'' := JStr ''present'')"

text \<open>
  Two requests for Ann whose date reaches the store as the text \<^verbatim>\<open>{}\<close>: the
  empty array, and the string.
\<close>

definition array_body :: body where
  "array_body = no_fields(''employeeId'' := JStr ''emp-1'', ''date'' := JArr [] [],
     ''status'' := JStr ''present'')"

definition brace_body :: body where
  "brace_body = no_fields(''employeeId'' := JStr ''emp-1'', ''date'' := JStr ''{}'',
     ''status'' := JStr ''absent'')"

section \<open>Basic facts\<close>

text \<open>
  Every statement, and so every handler, keeps the declared schema.
\<close>


lemma issue_tables [simp]:
  "employees (issue q st) = employees st"
  "departments (issue q st) = departments st"
  "attendance (issue q st) = attendance st"
  "issued (issue q st) = issued st @ [q]"
  by (simp_all add: issue_def)

lemma fits_simps [simp]: "fits n None" "fits n (Some s) = (length s \<le> n)"
  by (simp_all add: fits_def)

lemma fits_varchar [simp]: "fits n (varchar n v)"
  by (cases v) (simp_all add: fits_def varchar_def)

lemma varchar_None [simp]: "(varchar n v = None) = (v = None)"
  by (simp add: varchar_def)

lemma varchar_simps [simp]: "varchar n None = None" "varchar n (Some s) = Some (take n s)"
  by (simp_all add: varchar_def)

lemma schema_ok_insert_attendance:
  "schema_ok st \<Longrightarrow> schema_ok (snd (insert_attendance p1 p2 p3 p4 p5 st))"
  by (auto simp: schema_ok_def insert_attendance_def Let_def attendance_ok_def)

lemma mset_partition: "mset (filter (\<lambda>x. \<not> P x) xs @ filter P xs) = mset xs"
  by (induction xs) auto

lemma distinct_partition:
  assumes "distinct (map f xs)"
  shows "distinct (map f (filter (\<lambda>x. \<not> P x) xs) @ map f (filter P xs))"
  using assms by (induction xs) auto

lemma set_partition: "set (filter (\<lambda>x. \<not> P x) xs) \<union> set (filter P xs) = set xs"
  by auto

lemma schema_ok_update_attendance_status:
  assumes "schema_ok st"
  shows "schema_ok (snd (update_attendance_status p1 p2 p3 st))"
proof -
  let ?m = "att_match p2 p3"
  let ?rows = "map (\<lambda>r. r\<lparr>att_status := varchar 50 p1\<rparr>) (filter ?m (attendance st))"
  let ?ids = "map emp_id (employees st)"
  have ok: "list_all (attendance_ok ?ids) (filter (\<lambda>r. \<not> ?m r) (attendance st) @ ?rows)"
    if "p1 = None \<longrightarrow> filter ?m (attendance st) = []"
    using that assms unfolding schema_ok_def list_all_iff filter_empty_conv
    by (auto simp: attendance_ok_def)
  have "map att_id ?rows = map att_id (filter ?m (attendance st))" by simp
  with assms have ids: "distinct (map att_id (filter (\<lambda>r. \<not> ?m r) (attendance st) @ ?rows))"
    using distinct_partition [of att_id "attendance st" ?m]
    by (simp add: schema_ok_def del: map_map)
  from assms ok ids show ?thesis
    by (auto simp add: schema_ok_def update_attendance_status_def Let_def
          simp del: map_map map_append)
qed

lemma schema_ok_delete_attendance_for:
  "schema_ok st \<Longrightarrow> schema_ok (snd (delete_attendance_for p1 p2 st))"
  by (auto simp: schema_ok_def delete_attendance_for_def list_all_iff distinct_map_filter)

lemma schema_ok_delete_attendance_of_employee:
  "schema_ok st \<Longrightarrow> schema_ok (delete_attendance_of_employee p st)"
  by (auto simp: schema_ok_def delete_attendance_of_employee_def list_all_iff distinct_map_filter)

lemma schema_ok_insert_employee:
  "schema_ok st \<Longrightarrow> schema_ok (snd (insert_employee p1 p2 p3 p4 p5 p6 p7 st))"
  by (auto simp: schema_ok_def insert_employee_def Let_def employee_ok_def employee_fits_def
        list_all_iff attendance_ok_def)

lemma schema_ok_insert_department:
  "schema_ok st \<Longrightarrow> schema_ok (snd (insert_department p1 p2 p3 p4 st))"
  by (auto simp: schema_ok_def insert_department_def Let_def department_ok_def list_all_iff)

lemma schema_ok_delete_department:
  "schema_ok st \<Longrightarrow> schema_ok (snd (delete_department p st))"
  by (auto simp: schema_ok_def delete_department_def list_all_iff distinct_map_filter)

lemma fk_after_delete:
  assumes "attendance_ok (map emp_id es) r"
    and "att_employee_id r = None \<or> att_employee_id r \<notin> set (map emp_id (filter P es))"
  shows "attendance_ok (map emp_id (filter (\<lambda>x. \<not> P x) es)) r"
proof (cases "att_employee_id r")
  case None
  with assms(1) show ?thesis by (simp add: attendance_ok_def)
next
  case (Some e)
  with assms(1) obtain x where x: "x \<in> set es" "emp_id x = Some e"
    by (auto simp: attendance_ok_def)
  with assms(2) Some have "\<not> P x" by force
  with x have "Some e \<in> set (map emp_id (filter (\<lambda>x. \<not> P x) es))" by force
  with assms(1) Some show ?thesis by (simp add: attendance_ok_def)
qed

lemma schema_ok_delete_employee:
  assumes "schema_ok st"
  shows "schema_ok (snd (delete_employee p st))"
proof -
  let ?P = "\<lambda>r. sql_eq (emp_id r) p"
  have "list_all (attendance_ok (map emp_id (filter (\<lambda>x. \<not> ?P x) (employees st))))
          (filter (\<lambda>r. att_employee_id r = None
                        \<or> att_employee_id r \<notin> set (map emp_id (filter ?P (employees st))))
             (attendance st))"
    using assms unfolding schema_ok_def list_all_iff
    by (auto intro!: fk_after_delete)
  with assms show ?thesis
    by (simp add: schema_ok_def delete_employee_def Let_def list_all_iff distinct_map_filter)
qed

lemma emp_id_set_col [simp]: "emp_id (set_col (c, v) r) = emp_id r"
  by (cases c) auto

lemma emp_id_fold_set_col [simp]: "emp_id (fold set_col sets r) = emp_id r"
  by (induction sets arbitrary: r) auto

lemma employee_fits_set_col: "employee_fits r \<Longrightarrow> employee_fits (set_col (c, v) r)"
  by (cases c) (auto simp: employee_fits_def)

lemma employee_fits_fold: "employee_fits r \<Longrightarrow> employee_fits (fold set_col sets r)"
  by (induction sets arbitrary: r) (auto simp: employee_fits_set_col)

lemma schema_ok_update_employee:
  assumes "schema_ok st"
  shows "schema_ok (snd (update_employee sets p st))"
proof -
  let ?P = "\<lambda>r. sql_eq (emp_id r) p"
  let ?rows = "map (fold set_col sets) (filter ?P (employees st))"
  let ?new = "filter (\<lambda>r. \<not> ?P r) (employees st) @ ?rows"
  have same: "map emp_id ?rows = map emp_id (filter ?P (employees st))" by simp
  with assms have ids: "distinct (map emp_id ?new)"
    using distinct_partition [of emp_id "employees st" ?P]
    by (simp add: schema_ok_def del: map_map)
  have "set (map emp_id ?new)
      = emp_id ` (set (filter (\<lambda>r. \<not> ?P r) (employees st)) \<union> set (filter ?P (employees st)))"
    by (simp only: map_append set_append set_map same image_Un)
  then have sets: "set (map emp_id ?new) = set (map emp_id (employees st))"
    by (simp only: set_partition set_map)
  have fk: "list_all (attendance_ok (map emp_id ?new)) (attendance st)"
    using assms sets unfolding schema_ok_def list_all_iff attendance_ok_def by simp
  have ok: "list_all employee_ok ?new" if "filter (\<lambda>r. emp_name r = None) ?rows = []"
    using assms that unfolding schema_ok_def list_all_iff filter_empty_conv
    by (auto simp: employee_ok_def employee_fits_fold)
  from assms ids fk ok show ?thesis
    by (auto simp add: schema_ok_def update_employee_def Let_def simp del: map_map map_append)
qed

lemma schema_ok_issue [simp]: "schema_ok (issue q st) = schema_ok st"
  by (simp add: schema_ok_def)

lemma snd_post_attendance:
  "snd (post_attendance pool b st) = (if pool then snd (upsert_store b st) else st)"
  by (simp add: post_attendance_def upsert_store_def resolved_outlet_def Let_def
        select_employee_outlet_def select_attendance_for_def
        split: prod.split sum.split list.split)

lemma snd_post_employees:
  "snd (post_employees pool now b st) =
     (if pool
      then snd (insert_employee (Some (''emp-'' @ decimal now)) (prepareValue (b ''name''))
                 (prepareValue (or_empty (b ''email''))) (prepareValue (b ''phone''))
                 (prepareValue (or_empty (b ''address'')))
                 (prepareValue (or_empty (b ''department''))) (prepareValue (b ''outlet'')) st)
      else st)"
  by (simp add: post_employees_def Let_def split: prod.split sum.split list.split)

lemma snd_patch_employees:
  "snd (patch_employees pool eid b st) =
     (if pool \<and> updateFields b \<noteq> [] then snd (update_employee (updateFields b) (Some eid) st)
      else st)"
  by (simp add: patch_employees_def split: prod.split sum.split list.split)

lemma snd_delete_employees:
  "snd (delete_employees pool eid st) =
     (if pool then snd (delete_employee (Some eid) (delete_attendance_of_employee (Some eid) st))
      else st)"
  by (simp add: delete_employees_def Let_def split: prod.split)

lemma snd_post_departments:
  "snd (post_departments pool now b st) =
     (if pool
      then snd (insert_department (Some (''dept-'' @ decimal now)) (prepareValue (b ''name''))
                 (prepareValue (or_empty (b ''description''))) (prepareValue (b ''outlet'')) st)
      else st)"
  by (simp add: post_departments_def Let_def split: prod.split sum.split list.split)

lemma snd_delete_departments:
  "snd (delete_departments pool did st) =
     (if pool then snd (delete_department (Some did) st) else st)"
  by (simp add: delete_departments_def split: prod.split)

lemma snd_delete_attendance:
  "snd (delete_attendance pool e d st) =
     (if pool then snd (delete_attendance_for (Some e) (Some d) st) else st)"
  by (simp add: delete_attendance_def split: prod.split)

lemma snd_get:
  "snd (get_employees pool st) = (if pool then issue SelectEmployees st else st)"
  "snd (get_departments pool st) = (if pool then issue SelectDepartments st else st)"
  "snd (get_attendance pool st) = (if pool then issue SelectAttendance st else st)"
  by (simp_all add: get_employees_def get_departments_def get_attendance_def
        select_employees_def select_departments_def select_attendance_def)

lemma schema_ok_upsert_store: "schema_ok st \<Longrightarrow> schema_ok (snd (upsert_store b st))"
  using schema_ok_insert_attendance [of "issue SelectAttendanceFor (issue SelectEmployeeOutlet st)"]
    schema_ok_update_attendance_status [of "issue SelectAttendanceFor (issue SelectEmployeeOutlet st)"]
  by (simp add: upsert_store_def Let_def)

lemma schema_ok_handle:
  assumes "schema_ok st"
  shows "schema_ok (snd (handle pool r st))"
proof (cases r)
  case GET_employees
  with assms show ?thesis by (simp add: snd_get)
next
  case (POST_employees now b)
  with assms show ?thesis by (simp add: snd_post_employees schema_ok_insert_employee)
next
  case (PATCH_employees eid b)
  with assms show ?thesis by (simp add: snd_patch_employees schema_ok_update_employee)
next
  case (DELETE_employees eid)
  with assms show ?thesis
    by (simp add: snd_delete_employees schema_ok_delete_employee
          schema_ok_delete_attendance_of_employee)
next
  case GET_departments
  with assms show ?thesis by (simp add: snd_get)
next
  case (POST_departments now b)
  with assms show ?thesis by (simp add: snd_post_departments schema_ok_insert_department)
next
  case (DELETE_departments did)
  with assms show ?thesis by (simp add: snd_delete_departments schema_ok_delete_department)
next
  case GET_attendance
  with assms show ?thesis by (simp add: snd_get)
next
  case (POST_attendance b)
  with assms show ?thesis by (simp add: snd_post_attendance schema_ok_upsert_store)
next
  case (DELETE_attendance e d)
  with assms show ?thesis by (simp add: snd_delete_attendance schema_ok_delete_attendance_for)
qed

section \<open>The id and the columns of a new attendance row\<close>

text \<open>
  The text that the driver sends for a value is the text that the template literal
  makes of it, or it is in braces. An employee id is never in braces, so the
  \<^verbatim>\<open>employee_id\<close> of a row that the foreign key accepts is the text in the id of
  the row; the date is the text in the id, or it ends with a brace.
\<close>

lemma id_fits_employee_short:
  assumes "\<not> too_long 255 (Some (e @ ''-'' @ x))"
  shows "length e < 255"
proof (rule ccontr)
  assume "\<not> length e < 255"
  then have "drop 255 (e @ ''-'' @ x) = drop 255 e @ ''-'' @ x" by simp
  with assms show False by (simp add: too_long_def)
qed

lemma synth_take:
  assumes "\<not> too_long 255 (Some (e @ ''-'' @ d))"
  shows "take 255 (e @ ''-'' @ d) = take 255 (take 255 e @ ''-'' @ take 255 d)"
proof -
  have "length e < 255" by (rule id_fits_employee_short [OF assms])
  then show ?thesis by (simp add: take_Cons')
qed

lemma driver_text:
  "prepareValue v = Some p
     \<Longrightarrow> p = template v \<or> (p \<noteq> [] \<and> hd p = CHR ''{'' \<and> last p = CHR ''}'')"
  by (cases v) (auto split: if_splits)

lemma braced_fits:
  assumes "p \<noteq> []" and "last p = CHR ''}''" and "\<not> too_long n (Some p)"
  shows "length p \<le> n"
proof (rule ccontr)
  assume "\<not> length p \<le> n"
  then have "drop n p \<noteq> []" and "last (drop n p) = last p" by simp_all
  then have "last p \<in> set (drop n p)" by (metis last_in_set)
  with assms(2) have "filter (\<lambda>c. c \<noteq> CHR '' '') (drop n p) \<noteq> []"
    by (auto simp: filter_empty_conv)
  with assms(3) show False by (simp add: too_long_def)
qed

lemma trailing_space:
  assumes fit: "\<not> too_long 255 (Some (e @ ''-'' @ q))" and long: "255 < length q"
  shows "take 255 q \<noteq> [] \<and> last (take 255 q) = CHR '' ''"
proof -
  let ?xs = "e @ ''-'' @ q"
  have len: "length e + 255 < length ?xs" using long by simp
  have "?xs ! (length e + 255) = q ! 254" by (simp add: nth_append)
  moreover have "?xs ! (length e + 255) \<in> set (drop 255 ?xs)"
  proof -
    have "drop 255 ?xs ! length e = ?xs ! (255 + length e)"
      by (rule nth_drop) (use len in simp)
    then have "drop 255 ?xs ! length e = ?xs ! (length e + 255)"
      by (simp only: add.commute)
    moreover have "length e < length (drop 255 ?xs)" using len by simp
    ultimately show ?thesis by (metis nth_mem)
  qed
  ultimately have "q ! 254 \<in> set (drop 255 ?xs)" by simp
  with fit have "q ! 254 = CHR '' ''" by (auto simp: too_long_def filter_empty_conv)
  moreover have ne: "take 255 q \<noteq> []" using long by auto
  moreover have "last (take 255 q) = q ! 254"
  proof -
    have "length (take 255 q) = 255" using long by simp
    with last_conv_nth [OF ne] have "last (take 255 q) = take 255 q ! 254" by simp
    then show ?thesis by simp
  qed
  ultimately show ?thesis by simp
qed

lemma employee_part:
  assumes plain: "plain_ids st"
    and p: "prepareValue E = Some p"
    and fk: "varchar 255 (Some p) \<in> set (map emp_id (employees st))"
    and fit: "\<not> too_long 255 (Some (template E @ ''-'' @ x))"
  shows "p = template E \<and> length p < 255"
proof -
  have "\<not> (p \<noteq> [] \<and> hd p = CHR ''{'')"
  proof
    assume b: "p \<noteq> [] \<and> hd p = CHR ''{''"
    then have "take 1 (take 255 p) = ''{''" by (cases p) simp_all
    moreover from fk obtain r where "r \<in> set (employees st)" "emp_id r = Some (take 255 p)"
      by auto
    with plain have "take 1 (take 255 p) \<noteq> ''{''"
      by (auto simp: plain_ids_def list_all_iff)
    ultimately show False by simp
  qed
  with driver_text [OF p] have "p = template E" by blast
  with id_fits_employee_short [OF fit] show ?thesis by simp
qed

lemma date_part:
  assumes q: "prepareValue D = Some q" and fit: "\<not> too_long 255 (Some q)"
  shows "q = template D \<or> (take 255 q = q \<and> q \<noteq> [] \<and> last q = CHR ''}'')"
  using driver_text [OF q] braced_fits [of q 255] fit by auto

lemma store_inv_tables:
  assumes "employees st' = employees st" and "departments st' = departments st"
    and "attendance st' = attendance st"
  shows "store_inv st' = store_inv st"
  using assms
  by (simp add: store_inv_def schema_ok_def plain_ids_def one_row_per_pair_def pairs_def)

lemma store_inv_issue [simp]: "store_inv (issue q st) = store_inv st"
  by (rule store_inv_tables) simp_all

lemma synthesized_status [simp]: "synthesized (r\<lparr>att_status := v\<rparr>) = synthesized r"
  by (simp add: synthesized_def split: option.splits)

lemma synthesized_new_row:
  assumes plain: "plain_ids st"
    and fit: "\<not> too_long 255 (Some (attendance_id E D))"
    and fitd: "\<not> too_long 255 (prepareValue D)"
    and fk: "prepareValue E = None
             \<or> varchar 255 (prepareValue E) \<in> set (map emp_id (employees st))"
  shows "synthesized \<lparr>att_id = Some (take 255 (attendance_id E D)),
           att_employee_id = varchar 255 (prepareValue E),
           att_date = varchar 255 (prepareValue D), att_status = s, att_outlet = ol\<rparr>"
proof (cases "prepareValue E")
  case None
  then show ?thesis by (simp add: synthesized_def)
next
  case (Some p)
  with fk have fk': "varchar 255 (Some p) \<in> set (map emp_id (employees st))" by simp
  from fit have fit': "\<not> too_long 255 (Some (template E @ ''-'' @ template D))"
    by (simp add: attendance_id_def)
  from employee_part [OF plain Some fk' fit'] have p: "p = template E" "length p < 255"
    by blast+
  show ?thesis
  proof (cases "prepareValue D")
    case None
    with Some show ?thesis by (simp add: synthesized_def)
  next
    case d: (Some q)
    from date_part [OF d] fitd d
    consider "q = template D" | "take 255 q = q \<and> q \<noteq> [] \<and> last q = CHR ''}''"
      by auto
    then show ?thesis
    proof cases
      case 1
      with p fit' have "take 255 (attendance_id E D) = take 255 (p @ ''-'' @ take 255 q)"
        using synth_take [of p q] by (simp add: attendance_id_def)
      with Some d p show ?thesis by (simp add: synthesized_def)
    next
      case 2
      with Some d show ?thesis by (simp add: synthesized_def)
    qed
  qed
qed

section \<open>The upsert keeps one row per employee and date\<close>

text \<open>
  The \<^verbatim>\<open>INSERT\<close> runs only when the select has found no row of the pair, and the
  \<^verbatim>\<open>UPDATE\<close> changes neither the employee nor the date of a row.
\<close>

lemma fresh_pair:
  assumes inv: "store_inv st"
    and nomatch: "filter (att_match (prepareValue E) (prepareValue D)) (attendance st) = []"
    and fit: "\<not> too_long 255 (Some (attendance_id E D))"
    and fitd: "\<not> too_long 255 (prepareValue D)"
    and pk: "Some (take 255 (attendance_id E D)) \<notin> set (map att_id (attendance st))"
    and fk: "prepareValue E = None
             \<or> varchar 255 (prepareValue E) \<in> set (map emp_id (employees st))"
    and ne: "prepareValue E \<noteq> None"
  shows "(varchar 255 (prepareValue E), varchar 255 (prepareValue D)) \<notin> set (pairs st)"
proof
  assume "(varchar 255 (prepareValue E), varchar 255 (prepareValue D)) \<in> set (pairs st)"
  then obtain r0 where r0: "r0 \<in> set (attendance st)"
      and e0: "att_employee_id r0 = varchar 255 (prepareValue E)"
      and d0: "att_date r0 = varchar 255 (prepareValue D)"
    by (auto simp: pairs_def)
  from inv have ok: "schema_ok st" and plain: "plain_ids st"
      and syn: "list_all synthesized (attendance st)"
    by (simp_all add: store_inv_def)
  from ne obtain p where p: "prepareValue E = Some p" by auto
  with fk have fk': "varchar 255 (Some p) \<in> set (map emp_id (employees st))" by simp
  from fit have fit': "\<not> too_long 255 (Some (template E @ ''-'' @ template D))"
    by (simp add: attendance_id_def)
  from employee_part [OF plain p fk' fit'] have pe: "p = template E" and pl: "length p < 255"
    by blast+
  from ok r0 have "att_date r0 \<noteq> None"
    by (auto simp: schema_ok_def list_all_iff attendance_ok_def)
  with d0 obtain q where q: "prepareValue D = Some q" by (cases "prepareValue D") auto
  from e0 p pl have e0': "att_employee_id r0 = Some p" by simp
  from d0 q have d0': "att_date r0 = Some (take 255 q)" by simp
  show False
  proof (cases "length q \<le> 255")
    case True
    with e0' d0' p q have "att_match (prepareValue E) (prepareValue D) r0"
      by (simp add: att_match_def sql_eq_def)
    with r0 nomatch show False by (auto simp: filter_empty_conv)
  next
    case False
    then have long: "255 < length q" by simp
    with date_part [OF q] fitd q have qd: "q = template D" by auto
    with fit' pe have fitq: "\<not> too_long 255 (Some (p @ ''-'' @ q))" by simp
    from trailing_space [OF fitq long]
    have nb: "last (take 255 q) \<noteq> CHR ''}''" by simp
    from syn r0 have "synthesized r0" by (simp add: list_all_iff)
    with e0' d0' have "(take 255 q \<noteq> [] \<and> last (take 255 q) = CHR ''}'')
        \<or> att_id r0 = Some (take 255 (p @ ''-'' @ take 255 q))"
      by (simp only: synthesized_def option.case)
    with nb have "att_id r0 = Some (take 255 (p @ ''-'' @ take 255 q))" by blast
    also have "take 255 (p @ ''-'' @ take 255 q) = take 255 (p @ ''-'' @ q)"
      using synth_take [OF fitq] pl by simp
    finally have "att_id r0 = Some (take 255 (attendance_id E D))"
      using pe qd by (simp add: attendance_id_def)
    with r0 pk show False by force
  qed
qed

lemma store_inv_insert_attendance:
  assumes inv: "store_inv st"
    and nomatch: "filter (att_match (prepareValue E) (prepareValue D)) (attendance st) = []"
  shows "store_inv (snd (insert_attendance (Some (attendance_id E D)) (prepareValue E)
           (prepareValue D) p4 p5 st))"
proof -
  let ?ins = "insert_attendance (Some (attendance_id E D)) (prepareValue E)
           (prepareValue D) p4 p5 st"
  let ?nr = "\<lparr>att_id = Some (take 255 (attendance_id E D)),
           att_employee_id = varchar 255 (prepareValue E),
           att_date = varchar 255 (prepareValue D), att_status = varchar 50 p4,
           att_outlet = varchar 255 p5\<rparr>"
  let ?good = "\<not> too_long 255 (Some (attendance_id E D)) \<and> \<not> too_long 255 (prepareValue D)
      \<and> Some (take 255 (attendance_id E D)) \<notin> set (map att_id (attendance st))
      \<and> (prepareValue E = None
          \<or> varchar 255 (prepareValue E) \<in> set (map emp_id (employees st)))"
  have split: "snd ?ins = issue InsertAttendance st
      \<or> (?good \<and> snd ?ins = (issue InsertAttendance st)\<lparr>attendance := attendance st @ [?nr]\<rparr>)"
    by (simp add: insert_attendance_def Let_def)
  then show ?thesis
  proof
    assume "snd ?ins = issue InsertAttendance st"
    with inv show ?thesis by simp
  next
    assume a: "?good \<and> snd ?ins = (issue InsertAttendance st)\<lparr>attendance := attendance st @ [?nr]\<rparr>"
    then have eq: "snd ?ins = (issue InsertAttendance st)\<lparr>attendance := attendance st @ [?nr]\<rparr>"
      and fit: "\<not> too_long 255 (Some (attendance_id E D))"
      and fitd: "\<not> too_long 255 (prepareValue D)"
      and pk: "Some (take 255 (attendance_id E D)) \<notin> set (map att_id (attendance st))"
      and fk: "prepareValue E = None
               \<or> varchar 255 (prepareValue E) \<in> set (map emp_id (employees st))"
      by blast+
    from inv have ok: "schema_ok st" and plain: "plain_ids st"
      and syn: "list_all synthesized (attendance st)" and one: "one_row_per_pair st"
      by (simp_all add: store_inv_def)
    have 1: "schema_ok (snd ?ins)" by (rule schema_ok_insert_attendance [OF ok])
    have 2: "plain_ids (snd ?ins)" using plain by (simp add: eq plain_ids_def)
    have 3: "list_all synthesized (attendance (snd ?ins))"
      using syn synthesized_new_row [OF plain fit fitd fk] by (simp add: eq)
    have P: "pairs (snd ?ins)
        = pairs st @ (if prepareValue E \<noteq> None
                      then [(varchar 255 (prepareValue E), varchar 255 (prepareValue D))]
                      else [])"
      by (simp add: eq pairs_def)
    have 4: "one_row_per_pair (snd ?ins)"
    proof (cases "prepareValue E \<noteq> None")
      case False
      with one P show ?thesis by (simp add: one_row_per_pair_def)
    next
      case True
      from fresh_pair [OF inv nomatch fit fitd pk fk True] one True P
      show ?thesis by (simp add: one_row_per_pair_def)
    qed
    from 1 2 3 4 show ?thesis by (simp add: store_inv_def)
  qed
qed

lemma pairs_status:
  "map (\<lambda>r. (att_employee_id r, att_date r))
     (filter (\<lambda>r. att_employee_id r \<noteq> None)
        (filter (\<lambda>r. \<not> m r) xs @ map (\<lambda>r. r\<lparr>att_status := v\<rparr>) (filter m xs)))
   = map (\<lambda>r. (att_employee_id r, att_date r))
       (filter (\<lambda>r. \<not> m r) (filter (\<lambda>r. att_employee_id r \<noteq> None) xs))
     @ map (\<lambda>r. (att_employee_id r, att_date r))
         (filter m (filter (\<lambda>r. att_employee_id r \<noteq> None) xs))"
proof -
  let ?nn = "\<lambda>r. att_employee_id r \<noteq> None"
  let ?key = "\<lambda>r. (att_employee_id r, att_date r)"
  have 1: "filter ?nn (filter (\<lambda>r. \<not> m r) xs) = filter (\<lambda>r. \<not> m r) (filter ?nn xs)"
    by (induction xs) auto
  have 2: "filter ?nn (filter m xs) = filter m (filter ?nn xs)"
    by (induction xs) auto
  have 3: "map ?key (filter ?nn (map (\<lambda>r. r\<lparr>att_status := v\<rparr>) ys)) = map ?key (filter ?nn ys)"
    for ys by (induction ys) auto
  show ?thesis by (simp only: filter_append map_append 1 3 2)
qed

lemma store_inv_update_attendance_status:
  assumes inv: "store_inv st"
  shows "store_inv (snd (update_attendance_status p1 p2 p3 st))"
proof -
  let ?upd = "update_attendance_status p1 p2 p3 st"
  let ?m = "att_match p2 p3"
  let ?rows = "map (\<lambda>r. r\<lparr>att_status := varchar 50 p1\<rparr>) (filter ?m (attendance st))"
  let ?key = "\<lambda>r. (att_employee_id r, att_date r)"
  let ?nn = "\<lambda>r. att_employee_id r \<noteq> None"
  have split: "snd ?upd = issue UpdateAttendanceStatus st
      \<or> snd ?upd = (issue UpdateAttendanceStatus st)
            \<lparr>attendance := filter (\<lambda>r. \<not> ?m r) (attendance st) @ ?rows\<rparr>"
    by (simp add: update_attendance_status_def Let_def)
  then show ?thesis
  proof
    assume "snd ?upd = issue UpdateAttendanceStatus st"
    with inv show ?thesis by simp
  next
    assume eq: "snd ?upd = (issue UpdateAttendanceStatus st)
            \<lparr>attendance := filter (\<lambda>r. \<not> ?m r) (attendance st) @ ?rows\<rparr>"
    from inv have ok: "schema_ok st" and plain: "plain_ids st"
      and syn: "list_all synthesized (attendance st)" and one: "one_row_per_pair st"
      by (simp_all add: store_inv_def)
    have 1: "schema_ok (snd ?upd)" by (rule schema_ok_update_attendance_status [OF ok])
    have 2: "plain_ids (snd ?upd)" using plain by (simp add: eq plain_ids_def)
    have 3: "list_all synthesized (attendance (snd ?upd))"
      using syn by (auto simp: eq list_all_iff)
    have att: "attendance (snd ?upd) = filter (\<lambda>r. \<not> ?m r) (attendance st) @ ?rows"
      by (simp add: eq)
    have "pairs (snd ?upd)
        = map ?key (filter (\<lambda>r. \<not> ?m r) (filter ?nn (attendance st)))
          @ map ?key (filter ?m (filter ?nn (attendance st)))"
      by (simp only: pairs_def att pairs_status)
    moreover from one have "distinct (map ?key (filter ?nn (attendance st)))"
      by (simp add: one_row_per_pair_def pairs_def)
    ultimately have 4: "one_row_per_pair (snd ?upd)"
      using distinct_partition [of ?key "filter ?nn (attendance st)" ?m]
      by (simp add: one_row_per_pair_def)
    from 1 2 3 4 show ?thesis by (simp add: store_inv_def)
  qed
qed

lemma store_inv_upsert_store: "store_inv st \<Longrightarrow> store_inv (snd (upsert_store b st))"
  using store_inv_insert_attendance
      [of "issue SelectAttendanceFor (issue SelectEmployeeOutlet st)" "b ''employeeId''"
          "b ''date''"]
    store_inv_update_attendance_status
      [of "issue SelectAttendanceFor (issue SelectEmployeeOutlet st)"]
  by (simp add: upsert_store_def Let_def)

section \<open>Every request keeps one row per employee and date\<close>

lemma attendance_after [simp]:
  "attendance (snd (insert_employee p1 p2 p3 p4 p5 p6 p7 st)) = attendance st"
  "attendance (snd (update_employee sets p st)) = attendance st"
  "attendance (snd (insert_department q1 q2 q3 q4 st)) = attendance st"
  "attendance (snd (delete_department p st)) = attendance st"
  "attendance (delete_attendance_of_employee p st) =
     filter (\<lambda>r. \<not> sql_eq (att_employee_id r) p) (attendance st)"
  "attendance (snd (delete_attendance_for p q st)) =
     filter (\<lambda>r. \<not> att_match p q r) (attendance st)"
  "attendance (snd (delete_employee p st)) =
     filter (\<lambda>r. att_employee_id r = None
                  \<or> att_employee_id r \<notin> set (map emp_id (filter (\<lambda>r. sql_eq (emp_id r) p)
                                                         (employees st))))
       (attendance st)"
  by (simp_all add: insert_employee_def update_employee_def insert_department_def
        delete_department_def delete_attendance_of_employee_def delete_attendance_for_def
        delete_employee_def Let_def)

lemma employees_after [simp]:
  "employees (snd (insert_department q1 q2 q3 q4 st)) = employees st"
  "employees (snd (delete_department p st)) = employees st"
  "employees (delete_attendance_of_employee p st) = employees st"
  "employees (snd (delete_attendance_for p q st)) = employees st"
  "employees (snd (delete_employee p st)) = filter (\<lambda>r. \<not> sql_eq (emp_id r) p) (employees st)"
  by (simp_all add: insert_department_def delete_department_def
        delete_attendance_of_employee_def delete_attendance_for_def delete_employee_def Let_def)

lemma list_all_filter: "list_all P xs \<Longrightarrow> list_all P (filter Q xs)"
  by (simp add: list_all_iff)

lemma plain_ids_insert_employee:
  assumes "plain_ids st" and "take 1 i \<noteq> ''{''"
  shows "plain_ids (snd (insert_employee (Some i) p2 p3 p4 p5 p6 p7 st))"
  using assms by (cases i) (simp_all add: plain_ids_def insert_employee_def Let_def)

lemma plain_ids_update_employee:
  assumes "plain_ids st"
  shows "plain_ids (snd (update_employee sets p st))"
  using assms by (auto simp: plain_ids_def update_employee_def Let_def list_all_iff)

lemma plain_ids_filter:
  "plain_ids st \<Longrightarrow> employees st' = filter Q (employees st) \<Longrightarrow> plain_ids st'"
  by (simp add: plain_ids_def list_all_iff)

lemma plain_ids_after [simp]:
  "plain_ids (snd (insert_department q1 q2 q3 q4 st)) = plain_ids st"
  "plain_ids (snd (delete_department p st)) = plain_ids st"
  "plain_ids (delete_attendance_of_employee p st) = plain_ids st"
  "plain_ids (snd (delete_attendance_for p q st)) = plain_ids st"
  by (simp_all add: plain_ids_def)

lemma filter_swap: "filter P (filter Q xs) = filter Q (filter P xs)"
  by (induction xs) auto

lemma store_inv_filter:
  assumes inv: "store_inv st" and ok: "schema_ok st'" and plain: "plain_ids st'"
    and att: "attendance st' = filter Q (attendance st)"
  shows "store_inv st'"
proof -
  let ?nn = "\<lambda>r. att_employee_id r \<noteq> None"
  let ?pr = "\<lambda>r. (att_employee_id r, att_date r)"
  have sw: "filter ?nn (filter Q (attendance st)) = filter Q (filter ?nn (attendance st))"
    by (rule filter_swap)
  from inv have "distinct (map ?pr (filter ?nn (attendance st)))"
    by (simp only: store_inv_def one_row_per_pair_def pairs_def)
  hence "distinct (map ?pr (filter Q (filter ?nn (attendance st))))"
    by (rule distinct_map_filter)
  hence 1: "one_row_per_pair st'"
    by (simp only: one_row_per_pair_def pairs_def att sw)
  from inv have "list_all synthesized (attendance st)"
    by (simp only: store_inv_def)
  hence 2: "list_all synthesized (attendance st')"
    by (simp only: att list_all_filter)
  from ok plain 1 2 show ?thesis by (simp only: store_inv_def simp_thms)
qed

lemma store_inv_same:
  assumes inv: "store_inv st" and ok: "schema_ok st'" and plain: "plain_ids st'"
    and att: "attendance st' = attendance st"
  shows "store_inv st'"
  using store_inv_filter [OF inv ok plain, where Q = "\<lambda>r. True"] att by simp

lemma store_inv_handle:
  assumes inv: "store_inv st"
  shows "store_inv (snd (handle pool r st))"
proof -
  from inv have ok: "schema_ok st" and plain: "plain_ids st" by (simp_all add: store_inv_def)
  have ok': "schema_ok (snd (handle pool r st))" by (rule schema_ok_handle [OF ok])
  show ?thesis
  proof (cases r)
    case GET_employees
    with inv show ?thesis by (simp add: snd_get)
  next
    case (POST_employees now b)
    show ?thesis
    proof (rule store_inv_same [OF inv ok'])
      show "plain_ids (snd (handle pool r st))"
        using plain POST_employees
        by (simp add: snd_post_employees plain_ids_insert_employee)
      show "attendance (snd (handle pool r st)) = attendance st"
        using POST_employees by (simp add: snd_post_employees)
    qed
  next
    case (PATCH_employees eid b)
    show ?thesis
    proof (rule store_inv_same [OF inv ok'])
      show "plain_ids (snd (handle pool r st))"
        using plain PATCH_employees
        by (simp add: snd_patch_employees plain_ids_update_employee)
      show "attendance (snd (handle pool r st)) = attendance st"
        using PATCH_employees by (simp add: snd_patch_employees)
    qed
  next
    case (DELETE_employees eid)
    show ?thesis
    proof (cases pool)
      case False
      with inv DELETE_employees show ?thesis by (simp add: snd_delete_employees)
    next
      case True
      let ?st1 = "delete_attendance_of_employee (Some eid) st"
      have 1: "store_inv ?st1"
        by (rule store_inv_filter [OF inv schema_ok_delete_attendance_of_employee [OF ok],
              where Q = "\<lambda>r. \<not> sql_eq (att_employee_id r) (Some eid)"])
           (simp_all add: plain)
      have "store_inv (snd (delete_employee (Some eid) ?st1))"
      proof (rule store_inv_filter [OF 1 schema_ok_delete_employee])
        show "schema_ok ?st1" by (rule schema_ok_delete_attendance_of_employee [OF ok])
        show "plain_ids (snd (delete_employee (Some eid) ?st1))"
          by (rule plain_ids_filter [OF plain]) simp
        show "attendance (snd (delete_employee (Some eid) ?st1))
            = filter (\<lambda>r. att_employee_id r = None
                  \<or> att_employee_id r \<notin> set (map emp_id
                       (filter (\<lambda>r. sql_eq (emp_id r) (Some eid)) (employees ?st1))))
                (attendance ?st1)"
          by (rule attendance_after)
      qed
      with True DELETE_employees show ?thesis by (simp add: snd_delete_employees)
    qed
  next
    case GET_departments
    with inv show ?thesis by (simp add: snd_get)
  next
    case (POST_departments now b)
    show ?thesis
      by (rule store_inv_same [OF inv ok'])
         (simp_all add: POST_departments snd_post_departments plain)
  next
    case (DELETE_departments did)
    show ?thesis
      by (rule store_inv_same [OF inv ok'])
         (simp_all add: DELETE_departments snd_delete_departments plain)
  next
    case GET_attendance
    with inv show ?thesis by (simp add: snd_get)
  next
    case (POST_attendance b)
    with inv show ?thesis by (simp add: snd_post_attendance store_inv_upsert_store)
  next
    case (DELETE_attendance e d)
    show ?thesis
    proof (cases pool)
      case False
      with inv DELETE_attendance show ?thesis by (simp add: snd_delete_attendance)
    next
      case True
      show ?thesis
        by (rule store_inv_filter [OF inv ok',
              where Q = "\<lambda>r. \<not> att_match (Some e) (Some d) r"])
           (simp_all add: DELETE_attendance True snd_delete_attendance plain)
    qed
  qed
qed

lemma store_inv_run: "store_inv st \<Longrightarrow> store_inv (run pool rs st)"
  by (induction rs arbitrary: st) (simp_all add: store_inv_handle)

lemma store_inv_empty: "store_inv empty_store"
  by (simp add: store_inv_def schema_ok_def plain_ids_def one_row_per_pair_def pairs_def
        empty_store_def)

section \<open>Without a connection pool\<close>

text \<open>
  Claim C9. When no connection string is configured, \<^verbatim>\<open>pool\<close> is undefined, and
  each of the ten handlers under \<^verbatim>\<open>/api/employees\<close>, \<^verbatim>\<open>/api/departments\<close> and
  \<^verbatim>\<open>/api/attendance\<close> answers 503 with \<^verbatim>\<open>{ error: 'Database not available' }\<close>.
  The store is the one before the request, the record of the statements it has
  received included: no statement is issued.
\<close>

theorem no_pool_unavailable:
  "handle False r st = (respond 503 (Error ''Database not available''), st)"
  by (cases r)
     (simp_all add: get_employees_def post_employees_def patch_employees_def
        delete_employees_def get_departments_def post_departments_def delete_departments_def
        get_attendance_def post_attendance_def delete_attendance_def unavailable_def)

theorem no_pool_unavailable_witness:
  "handle False (POST_attendance (no_fields(''employeeId'' := JStr ''emp-1'',
       ''date'' := JStr ''2024-01-01'', ''status'' := JStr ''present''))) empty_store
   = (respond 503 (Error ''Database not available''), empty_store)"
  by (rule no_pool_unavailable)

section \<open>Partial update without fields\<close>

text \<open>
  Claim C5. A \<^verbatim>\<open>PATCH /api/employees/:id\<close> whose body carries none of the six
  properties that the handler reads is answered, for every id, with 400 and
  \<^verbatim>\<open>{ error: 'No fields to update' }\<close>, and the store is the one before the
  request: the handler returns before it issues a statement. (The pool exists;
  without it the answer is the 503 of claim C9.)
\<close>

theorem patch_no_fields:
  assumes "b ''name'' = JUndefined" and "b ''email'' = JUndefined"
    and "b ''phone'' = JUndefined" and "b ''address'' = JUndefined"
    and "b ''department'' = JUndefined" and "b ''outlet'' = JUndefined"
  shows "patch_employees True eid b st = (respond 400 (Error ''No fields to update''), st)"
  using assms by (simp add: patch_employees_def updateFields_def provided_def)

theorem patch_no_fields_witness:
  "no_fields ''name'' = JUndefined \<and> no_fields ''email'' = JUndefined
   \<and> no_fields ''phone'' = JUndefined \<and> no_fields ''address'' = JUndefined
   \<and> no_fields ''department'' = JUndefined \<and> no_fields ''outlet'' = JUndefined
   \<and> patch_employees True ''emp-1'' no_fields empty_store
       = (respond 400 (Error ''No fields to update''), empty_store)"
  using patch_no_fields [of no_fields "''emp-1''" empty_store]
  by (simp add: no_fields_def)

section \<open>The update branch of the upsert\<close>

lemma post_attendance_upsert_store:
  "post_attendance True b st =
     (case upsert_store b st of
        (Inl err, st3) \<Rightarrow> (respond 500 (StoreFailure err), st3)
      | (Inr [], st3) \<Rightarrow> (respond 500 TypeError, st3)
      | (Inr (row # _), st3) \<Rightarrow>
          (respond (if filter (att_match (prepareValue (b ''employeeId''))
                                 (prepareValue (b ''date''))) (attendance st) \<noteq> []
                    then 200 else 201)
             (Attendance (to_json row)), st3))"
  by (simp add: post_attendance_def upsert_store_def resolved_outlet_def Let_def
        select_employee_outlet_def select_attendance_for_def)

lemma fits_not_too_long: "fits n v \<Longrightarrow> \<not> too_long n v"
  by (cases v) (simp_all add: too_long_def)

lemma fits_varchar_id: "fits n v \<Longrightarrow> varchar n v = v"
  by (cases v) simp_all

lemma att_match_status [simp]: "att_match p q (r\<lparr>att_status := v\<rparr>) = att_match p q r"
  by (simp add: att_match_def)

lemma too_long_None [simp]: "\<not> too_long n None"
  by (simp add: too_long_def)

lemma att_match_None [simp]: "\<not> att_match None q r" "\<not> att_match p None r"
  by (simp_all add: att_match_def sql_eq_def)

lemma mset_update_matching:
  "mset (filter (\<lambda>x. \<not> P x) xs @ map f (filter P xs))
     = mset (map (\<lambda>x. if P x then f x else x) xs)"
  by (induction xs) auto

lemma mset_keys_update_matching:
  assumes "\<And>x. g (f x) = g x"
  shows "mset (map g (filter (\<lambda>x. \<not> P x) xs @ map f (filter P xs))) = mset (map g xs)"
  using assms by (induction xs) auto

lemma filter_update_matching:
  assumes "\<And>x. P (f x) = P x"
  shows "filter (\<lambda>x. \<not> P x) (filter (\<lambda>x. \<not> P x) xs @ map f (filter P xs))
           = filter (\<lambda>x. \<not> P x) xs"
    and "filter P (filter (\<lambda>x. \<not> P x) xs @ map f (filter P xs)) = map f (filter P xs)"
  using assms by (induction xs) auto

lemma update_attendance_status_found:
  assumes "filter (att_match p2 p3) (attendance st) \<noteq> []"
  shows "update_attendance_status p1 p2 p3 st =
     (if too_long 50 p1 then (Inl StringTooLong, issue UpdateAttendanceStatus st)
      else if p1 = None then (Inl NotNullViolation, issue UpdateAttendanceStatus st)
      else (Inr (map (\<lambda>r. r\<lparr>att_status := varchar 50 p1\<rparr>)
                  (filter (att_match p2 p3) (attendance st))),
            (issue UpdateAttendanceStatus st)
              \<lparr>attendance := filter (\<lambda>r. \<not> att_match p2 p3 r) (attendance st)
                   @ map (\<lambda>r. r\<lparr>att_status := varchar 50 p1\<rparr>)
                       (filter (att_match p2 p3) (attendance st))\<rparr>))"
  using assms by (simp add: update_attendance_status_def Let_def)

text \<open>
  Claim C8. Let \<^verbatim>\<open>POST /api/attendance\<close> find a row for the employee and date of
  the request. Then it changes nothing but \<^verbatim>\<open>status\<close>, and only in the rows of
  that employee and date:
  \<^item> the attendance table holds the same \<^verbatim>\<open>id\<close>, \<^verbatim>\<open>employee_id\<close>, \<^verbatim>\<open>date\<close> and
    \<^verbatim>\<open>outlet\<close> as before, row for row (as a multiset of these four columns);
  \<^item> the rows of other pairs are the same rows;
  \<^item> the employees and departments are untouched, and the statements issued are
    the two selects and the \<^verbatim>\<open>UPDATE\<close>;
  \<^item> when the status is a text \<open>s\<close> that the column accepts, the table after the
    request is the old one with the status of every row of the pair replaced by
    \<open>s\<close> (cut to 50 characters when only spaces are cut), every row of the pair
    has this status in the store, and the answer is 200 with the first row that
    was found, its status replaced: the outlet it carries is the one recorded
    when the row was written, whatever \<^verbatim>\<open>outlet\<close> the employee has now (the
    employees table is arbitrary here);
  \<^item> when the status is missing, \<^verbatim>\<open>null\<close> or too long, the store rejects the
    \<^verbatim>\<open>UPDATE\<close>: the attendance table is as before and the answer is 500.
\<close>

theorem upsert_updates_status_only:
  assumes "filter (att_match (prepareValue (b ''employeeId'')) (prepareValue (b ''date'')))
             (attendance st) \<noteq> []"
  shows "mset (map (\<lambda>r. (att_id r, att_employee_id r, att_date r, att_outlet r))
                (attendance (snd (post_attendance True b st))))
        = mset (map (\<lambda>r. (att_id r, att_employee_id r, att_date r, att_outlet r))
                  (attendance st))
    \<and> filter (\<lambda>r. \<not> att_match (prepareValue (b ''employeeId'')) (prepareValue (b ''date'')) r)
          (attendance (snd (post_attendance True b st)))
        = filter (\<lambda>r. \<not> att_match (prepareValue (b ''employeeId'')) (prepareValue (b ''date'')) r)
            (attendance st)
    \<and> employees (snd (post_attendance True b st)) = employees st
    \<and> departments (snd (post_attendance True b st)) = departments st
    \<and> issued (snd (post_attendance True b st))
        = issued st @ [SelectEmployeeOutlet, SelectAttendanceFor, UpdateAttendanceStatus]
    \<and> (\<forall>s. prepareValue (b ''status'') = Some s \<and> \<not> too_long 50 (Some s) \<longrightarrow>
          mset (attendance (snd (post_attendance True b st)))
          = mset (map (\<lambda>r. if att_match (prepareValue (b ''employeeId''))
                                (prepareValue (b ''date'')) r
                             then r\<lparr>att_status := Some (take 50 s)\<rparr> else r) (attendance st))
        \<and> map att_status
            (filter (att_match (prepareValue (b ''employeeId'')) (prepareValue (b ''date'')))
               (attendance (snd (post_attendance True b st))))
          = replicate
              (length (filter (att_match (prepareValue (b ''employeeId''))
                                 (prepareValue (b ''date''))) (attendance st)))
              (Some (take 50 s))
        \<and> fst (post_attendance True b st)
          = respond 200 (Attendance (to_json
              ((hd (filter (att_match (prepareValue (b ''employeeId''))
                      (prepareValue (b ''date''))) (attendance st)))
                 \<lparr>att_status := Some (take 50 s)\<rparr>))))
    \<and> (prepareValue (b ''status'') = None \<or> too_long 50 (prepareValue (b ''status'')) \<longrightarrow>
          attendance (snd (post_attendance True b st)) = attendance st
        \<and> (\<exists>err. fst (post_attendance True b st) = respond 500 (StoreFailure err)))"
proof -
  let ?e = "prepareValue (b ''employeeId'')" and ?d = "prepareValue (b ''date'')"
  let ?s = "prepareValue (b ''status'')"
  let ?m = "att_match ?e ?d"
  let ?key = "\<lambda>r. (att_id r, att_employee_id r, att_date r, att_outlet r)"
  let ?st2 = "issue SelectAttendanceFor (issue SelectEmployeeOutlet st)"
  let ?st' = "snd (post_attendance True b st)"
  let ?upd = "\<lambda>r. r\<lparr>att_status := varchar 50 ?s\<rparr>"
  have found: "filter ?m (attendance ?st2) \<noteq> []" using assms by simp
  have ups: "upsert_store b st = update_attendance_status ?s ?e ?d ?st2"
    using assms by (simp add: upsert_store_def Let_def)
  have tables: "?st' = snd (update_attendance_status ?s ?e ?d ?st2)"
    by (simp add: snd_post_attendance ups)
  have other: "employees ?st' = employees st" "departments ?st' = departments st"
      "issued ?st' = issued st @ [SelectEmployeeOutlet, SelectAttendanceFor,
         UpdateAttendanceStatus]"
    unfolding tables update_attendance_status_found [OF found] by simp_all
  have att: "attendance ?st' = attendance st
      \<or> attendance ?st' = filter (\<lambda>r. \<not> ?m r) (attendance st) @ map ?upd (filter ?m (attendance st))"
    unfolding tables update_attendance_status_found [OF found] by simp
  have keys: "mset (map ?key (attendance ?st')) = mset (map ?key (attendance st))"
  proof -
    have "mset (map ?key (filter (\<lambda>r. \<not> ?m r) (attendance st)
                 @ map ?upd (filter ?m (attendance st)))) = mset (map ?key (attendance st))"
      by (rule mset_keys_update_matching) simp
    with att show ?thesis by (elim disjE) (simp_all only:)
  qed
  have rest: "filter (\<lambda>r. \<not> ?m r) (attendance ?st') = filter (\<lambda>r. \<not> ?m r) (attendance st)"
  proof -
    have "filter (\<lambda>r. \<not> ?m r) (filter (\<lambda>r. \<not> ?m r) (attendance st)
                 @ map ?upd (filter ?m (attendance st))) = filter (\<lambda>r. \<not> ?m r) (attendance st)"
      by (rule filter_update_matching) simp
    with att show ?thesis by (elim disjE) (simp_all only:)
  qed
  have accepted: "mset (attendance ?st')
          = mset (map (\<lambda>r. if ?m r then r\<lparr>att_status := Some (take 50 s)\<rparr> else r) (attendance st))
        \<and> map att_status (filter ?m (attendance ?st'))
          = replicate (length (filter ?m (attendance st))) (Some (take 50 s))
        \<and> fst (post_attendance True b st)
          = respond 200 (Attendance (to_json
              ((hd (filter ?m (attendance st)))\<lparr>att_status := Some (take 50 s)\<rparr>)))"
    if s: "?s = Some s" and fit: "\<not> too_long 50 (Some s)" for s
  proof -
    let ?new = "\<lambda>r. r\<lparr>att_status := Some (take 50 s)\<rparr>"
    from assms obtain r rs where rs: "filter ?m (attendance st) = r # rs"
      by (cases "filter ?m (attendance st)") auto
    have upd: "update_attendance_status ?s ?e ?d ?st2
        = (Inr (map ?new (filter ?m (attendance st))),
           (issue UpdateAttendanceStatus ?st2)
             \<lparr>attendance := filter (\<lambda>r. \<not> ?m r) (attendance st)
                  @ map ?new (filter ?m (attendance st))\<rparr>)"
      unfolding update_attendance_status_found [OF found] using s fit by simp
    have a: "attendance ?st' = filter (\<lambda>r. \<not> ?m r) (attendance st)
        @ map ?new (filter ?m (attendance st))"
      unfolding tables upd by simp
    have 1: "mset (attendance ?st')
          = mset (map (\<lambda>r. if ?m r then ?new r else r) (attendance st))"
      unfolding a by (rule mset_update_matching)
    have "filter ?m (attendance ?st') = map ?new (filter ?m (attendance st))"
      unfolding a by (rule filter_update_matching) simp
    then have 2: "map att_status (filter ?m (attendance ?st'))
          = replicate (length (filter ?m (attendance st))) (Some (take 50 s))"
      by (simp add: map_replicate_const o_def)
    have 3: "fst (post_attendance True b st) = respond 200 (Attendance (to_json (?new
        (hd (filter ?m (attendance st))))))"
      using assms by (simp add: post_attendance_upsert_store ups upd rs)
    from 1 2 3 show ?thesis by simp
  qed
  have rejected: "attendance ?st' = attendance st
        \<and> (\<exists>err. fst (post_attendance True b st) = respond 500 (StoreFailure err))"
    if "?s = None \<or> too_long 50 ?s"
  proof -
    from that have "update_attendance_status ?s ?e ?d ?st2
        = (Inl (if too_long 50 ?s then StringTooLong else NotNullViolation),
           issue UpdateAttendanceStatus ?st2)"
      unfolding update_attendance_status_found [OF found] by auto
    then show ?thesis
      by (auto simp add: tables post_attendance_upsert_store ups)
  qed
  from keys rest other accepted rejected show ?thesis by blast
qed

text \<open>
  Ann's attendance was recorded at the outlet North; she is at South now. Marking
  her absent for the same day writes the status into her row and keeps North on
  it; without a status nothing is written.
\<close>

theorem upsert_updates_status_only_witness:
  "filter (att_match (prepareValue (absent_body ''employeeId''))
       (prepareValue (absent_body ''date''))) (attendance south_store) = [day_row]
   \<and> map emp_outlet (employees south_store) = [Some ''South'']
   \<and> fst (post_attendance True absent_body south_store)
       = respond 200 (Attendance \<lparr>aj_id = Some ''emp-1-2024-01-01'',
           aj_employeeId = Some ''emp-1'', aj_date = Some ''2024-01-01'',
           aj_status = Some ''absent'', aj_outlet = Some ''North''\<rparr>)
   \<and> attendance (snd (post_attendance True absent_body south_store))
       = [day_row\<lparr>att_status := Some ''absent''\<rparr>]
   \<and> attendance (snd (post_attendance True (absent_body(''status'' := JUndefined)) south_store))
       = [day_row]
   \<and> (\<exists>err. fst (post_attendance True (absent_body(''status'' := JUndefined)) south_store)
         = respond 500 (StoreFailure err))"
proof -
  have m: "filter (att_match (prepareValue (absent_body ''employeeId''))
       (prepareValue (absent_body ''date''))) (attendance south_store) = [day_row]"
    by (simp add: absent_body_def south_store_def empty_store_def day_row_def att_match_def
          sql_eq_def)
  then have h: "filter (att_match (prepareValue (absent_body ''employeeId''))
       (prepareValue (absent_body ''date''))) (attendance south_store) \<noteq> []"
    by simp
  have a: "attendance south_store = [day_row]"
    by (simp add: south_store_def empty_store_def)
  have s: "prepareValue (absent_body ''status'') = Some ''absent''"
      "\<not> too_long 50 (Some ''absent'')"
    by (simp_all add: absent_body_def too_long_def)
  have m': "filter (att_match (prepareValue ((absent_body(''status'' := JUndefined)) ''employeeId''))
       (prepareValue ((absent_body(''status'' := JUndefined)) ''date''))) (attendance south_store)
       \<noteq> []"
    using h by simp
  have take_absent: "take 50 ''absent'' = ''absent''" by simp
  have e: "map emp_outlet (employees south_store) = [Some ''South'']"
    by (simp add: south_store_def empty_store_def ann_def)
  have md: "att_match (prepareValue (absent_body ''employeeId''))
       (prepareValue (absent_body ''date'')) day_row"
    by (simp add: absent_body_def day_row_def att_match_def sql_eq_def)
  note accepted = upsert_updates_status_only [OF h, THEN conjunct2, THEN conjunct2,
      THEN conjunct2, THEN conjunct2, THEN conjunct2, THEN conjunct1, rule_format,
      OF conjI, OF s]
  from accepted have "mset (attendance (snd (post_attendance True absent_body south_store)))
       = mset [day_row\<lparr>att_status := Some ''absent''\<rparr>]"
    by (simp only: a list.map md if_True take_absent)
  then have 2: "attendance (snd (post_attendance True absent_body south_store))
       = [day_row\<lparr>att_status := Some ''absent''\<rparr>]"
    by simp
  from accepted have 1: "fst (post_attendance True absent_body south_store)
       = respond 200 (Attendance (to_json (day_row\<lparr>att_status := Some ''absent''\<rparr>)))"
    by (simp only: m list.sel take_absent)
  note rejected = upsert_updates_status_only [OF m', THEN conjunct2, THEN conjunct2,
      THEN conjunct2, THEN conjunct2, THEN conjunct2, THEN conjunct2, rule_format]
  have "prepareValue ((absent_body(''status'' := JUndefined)) ''status'') = None" by simp
  then have 3: "attendance (snd (post_attendance True (absent_body(''status'' := JUndefined))
        south_store)) = [day_row]
      \<and> (\<exists>err. fst (post_attendance True (absent_body(''status'' := JUndefined)) south_store)
         = respond 500 (StoreFailure err))"
    using rejected a by simp
  from m e 1 2 3 show ?thesis by (simp add: to_json_def day_row_def)
qed

section \<open>The upsert, called twice\<close>

lemma fits_resolved_outlet:
  assumes "schema_ok st"
  shows "fits 255 (resolved_outlet p st)"
proof (cases "filter (\<lambda>r. sql_eq (emp_id r) p) (employees st)")
  case Nil
  then show ?thesis by (simp add: resolved_outlet_def select_employee_outlet_def)
next
  case (Cons x xs)
  then have "x \<in> set (filter (\<lambda>r. sql_eq (emp_id r) p) (employees st))" by simp
  then have "x \<in> set (employees st)" by simp
  with assms have "employee_ok x" by (simp add: schema_ok_def list_all_iff)
  with Cons show ?thesis
    by (simp add: resolved_outlet_def select_employee_outlet_def employee_ok_def
          employee_fits_def)
qed

lemma filter_rest: "filter P xs = [] \<Longrightarrow> filter (\<lambda>r. \<not> P r) xs = xs"
  by (induction xs) (auto split: if_splits)

lemma schema_ok_north: "schema_ok north_store"
  by (simp add: schema_ok_def north_store_def empty_store_def ann_def employee_ok_def
        employee_fits_def)

lemma resolved_outlet_north: "resolved_outlet (Some ''emp-1'') north_store = Some ''North''"
  by (simp add: resolved_outlet_def select_employee_outlet_def north_store_def empty_store_def
        ann_def sql_eq_def)

text \<open>
  Claim C1, as amended. Let the store satisfy the declared schema, and let the
  request carry strings \<open>e\<close>, \<open>d\<close> and \<open>s\<close> as \<^verbatim>\<open>employeeId\<close>, \<^verbatim>\<open>date\<close> and
  \<^verbatim>\<open>status\<close> such that an employee with id \<open>e\<close> exists, the id \<open>e-d\<close> has at most
  255 characters and is the id of no attendance row, \<open>s\<close> has at most 50
  characters, and no attendance row exists for \<open>e\<close> and \<open>d\<close>. Then the first call
  answers 201 and the second call, on the store the first one leaves, answers 200,
  both with the same row; after the two calls exactly one attendance row matches
  \<open>e\<close> and \<open>d\<close>, it has the status \<open>s\<close>, and the table is the old one with this row
  appended.
\<close>

theorem upsert_twice:
  assumes ok: "schema_ok st"
    and E: "b ''employeeId'' = JStr e" and D: "b ''date'' = JStr d" and S: "b ''status'' = JStr s"
    and emp: "Some e \<in> set (map emp_id (employees st))"
    and len: "length (e @ ''-'' @ d) \<le> 255" and lens: "length s \<le> 50"
    and none: "filter (att_match (Some e) (Some d)) (attendance st) = []"
    and fresh: "Some (e @ ''-'' @ d) \<notin> set (map att_id (attendance st))"
  shows "\<exists>row st1 st2.
           row = \<lparr>att_id = Some (e @ ''-'' @ d), att_employee_id = Some e, att_date = Some d,
                   att_status = Some s, att_outlet = resolved_outlet (Some e) st\<rparr>
         \<and> post_attendance True b st = (respond 201 (Attendance (to_json row)), st1)
         \<and> post_attendance True b st1 = (respond 200 (Attendance (to_json row)), st2)
         \<and> filter (att_match (Some e) (Some d)) (attendance st2) = [row]
         \<and> attendance st2 = attendance st @ [row]"
proof -
  define row where "row = \<lparr>att_id = Some (e @ ''-'' @ d), att_employee_id = Some e,
      att_date = Some d, att_status = Some s, att_outlet = resolved_outlet (Some e) st\<rparr>"
  define st1 where "st1 = (issue InsertAttendance (issue SelectAttendanceFor
      (issue SelectEmployeeOutlet st)))\<lparr>attendance := attendance st @ [row]\<rparr>"
  define st2 where "st2 = (issue UpdateAttendanceStatus (issue SelectAttendanceFor
      (issue SelectEmployeeOutlet st1)))\<lparr>attendance := attendance st @ [row]\<rparr>"
  have fo: "fits 255 (resolved_outlet (Some e) st)" by (rule fits_resolved_outlet [OF ok])
  have m: "att_match (Some e) (Some d) row" by (simp add: att_match_def sql_eq_def row_def)
  have first: "upsert_store b st = (Inr [row], st1)"
    using E D S emp len lens none fresh fo
    by (simp add: upsert_store_def Let_def insert_attendance_def attendance_id_def
          fits_not_too_long fits_varchar_id row_def st1_def)
  have a1: "attendance st1 = attendance st @ [row]" by (simp add: st1_def)
  have second: "upsert_store b st1 = (Inr [row], st2)"
    using E D S lens none m
    by (simp add: upsert_store_def Let_def update_attendance_status_def a1
          fits_not_too_long filter_rest st2_def)
       (simp add: row_def)
  have "post_attendance True b st = (respond 201 (Attendance (to_json row)), st1)"
    using E D none by (simp add: post_attendance_upsert_store first)
  moreover have "post_attendance True b st1 = (respond 200 (Attendance (to_json row)), st2)"
    using E D none m by (simp add: post_attendance_upsert_store second a1)
  moreover have "filter (att_match (Some e) (Some d)) (attendance st2) = [row]"
    using none m by (simp add: st2_def)
  moreover have "attendance st2 = attendance st @ [row]" by (simp add: st2_def)
  ultimately show ?thesis using row_def by blast
qed

text \<open>The scenario of the specification: Ann, 2024-01-01, present.\<close>

theorem upsert_twice_witness:
  "\<exists>st1 st2. post_attendance True present_body north_store
                 = (respond 201 (Attendance (to_json day_row)), st1)
     \<and> post_attendance True present_body st1 = (respond 200 (Attendance (to_json day_row)), st2)
     \<and> filter (att_match (Some ''emp-1'') (Some ''2024-01-01'')) (attendance st2) = [day_row]
     \<and> attendance st2 = [day_row] \<and> att_status day_row = Some ''present''"
proof -
  have E: "present_body ''employeeId'' = JStr ''emp-1''"
    and D: "present_body ''date'' = JStr ''2024-01-01''"
    and S: "present_body ''status'' = JStr ''present''"
    by (simp_all add: present_body_def)
  have emp: "Some ''emp-1'' \<in> set (map emp_id (employees north_store))"
    by (simp add: north_store_def empty_store_def ann_def)
  have len: "length (''emp-1'' @ ''-'' @ ''2024-01-01'') \<le> 255" by simp
  have lens: "length ''present'' \<le> 50" by simp
  have none: "filter (att_match (Some ''emp-1'') (Some ''2024-01-01'')) (attendance north_store)
                = []"
    by (simp add: north_store_def empty_store_def)
  have fresh: "Some (''emp-1'' @ ''-'' @ ''2024-01-01'')
                 \<notin> set (map att_id (attendance north_store))"
    by (simp add: north_store_def empty_store_def)
  have att: "attendance north_store = []" by (simp add: north_store_def empty_store_def)
  from upsert_twice [OF schema_ok_north E D S emp len lens none fresh]
  show ?thesis
    by (simp add: resolved_outlet_north day_row_def att)
qed

text \<open>
  The claim as stated, for any \<^verbatim>\<open>employeeId\<close>, fails where no employee has the id:
  the foreign key of \<^verbatim>\<open>attendance.employee_id\<close> rejects the \<^verbatim>\<open>INSERT\<close>, both calls
  answer 500 and no row exists afterwards.
\<close>

theorem upsert_twice_counterexample:
  "fst (post_attendance True present_body empty_store)
     = respond 500 (StoreFailure ForeignKeyViolation)
   \<and> fst (post_attendance True present_body (snd (post_attendance True present_body empty_store)))
     = respond 500 (StoreFailure ForeignKeyViolation)
   \<and> attendance (run True [POST_attendance present_body, POST_attendance present_body]
        empty_store) = []"
  by (simp add: post_attendance_upsert_store upsert_store_def Let_def insert_attendance_def
        empty_store_def present_body_def no_fields_def attendance_id_def too_long_def
        resolved_outlet_def select_employee_outlet_def snd_post_attendance)

section \<open>The upsert for an employee that does not exist\<close>

lemma no_employee_no_id:
  "filter (\<lambda>r. sql_eq (emp_id r) (Some e)) (employees st) = []
     \<Longrightarrow> Some e \<notin> set (map emp_id (employees st))"
  by (auto simp: filter_empty_conv sql_eq_def)

lemma no_employee_no_attendance:
  assumes "schema_ok st" and "Some e \<notin> set (map emp_id (employees st))"
  shows "filter (att_match (Some e) q) (attendance st) = []"
proof -
  have "\<not> att_match (Some e) q r" if "r \<in> set (attendance st)" for r
  proof
    assume "att_match (Some e) q r"
    then have "att_employee_id r = Some e" by (simp add: att_match_def sql_eq_def)
    moreover from assms(1) that have "attendance_ok (map emp_id (employees st)) r"
      by (simp add: schema_ok_def list_all_iff)
    ultimately have "Some e \<in> set (map emp_id (employees st))"
      by (simp add: attendance_ok_def)
    with assms(2) show False by simp
  qed
  then show ?thesis by (simp add: filter_empty_conv)
qed

text \<open>
  Claim C7, as amended. Let the store satisfy the declared schema and let
  \<^verbatim>\<open>SELECT outlet FROM employees WHERE id = $1\<close> find no row for the
  \<^verbatim>\<open>employeeId\<close> of the request. Then the outlet resolves to \<^verbatim>\<open>null\<close>. If
  \<^verbatim>\<open>employeeId\<close> is a string, the request is answered 500 with an error of the
  store, and the store has received the \<^verbatim>\<open>INSERT\<close> but its tables are unchanged:
  no attendance row is recorded. If \<^verbatim>\<open>employeeId\<close> is absent or \<^verbatim>\<open>null\<close>, and
  \<^verbatim>\<open>date\<close> and \<^verbatim>\<open>status\<close> are strings such that the synthesized id has at most 255
  characters and is unused and the status has at most 50, the request is answered
  201 and the row is recorded with \<^verbatim>\<open>employee_id\<close> and \<^verbatim>\<open>outlet\<close> both \<^verbatim>\<open>NULL\<close>.
\<close>

theorem upsert_unknown_employee:
  assumes ok: "schema_ok st"
    and none: "filter (\<lambda>r. sql_eq (emp_id r) (prepareValue (b ''employeeId''))) (employees st) = []"
  shows "resolved_outlet (prepareValue (b ''employeeId'')) st = None
    \<and> (\<forall>e. b ''employeeId'' = JStr e \<longrightarrow>
          (\<exists>err. post_attendance True b st
             = (respond 500 (StoreFailure err),
                issue InsertAttendance (issue SelectAttendanceFor
                  (issue SelectEmployeeOutlet st)))))
    \<and> (\<forall>d s. prepareValue (b ''employeeId'') = None \<and> b ''date'' = JStr d
          \<and> b ''status'' = JStr s
          \<and> length (attendance_id (b ''employeeId'') (b ''date'')) \<le> 255 \<and> length s \<le> 50
          \<and> Some (attendance_id (b ''employeeId'') (b ''date''))
               \<notin> set (map att_id (attendance st)) \<longrightarrow>
          post_attendance True b st
          = (respond 201 (Attendance
               \<lparr>aj_id = Some (attendance_id (b ''employeeId'') (b ''date'')),
                  aj_employeeId = None, aj_date = Some d, aj_status = Some s,
                  aj_outlet = None\<rparr>),
             (issue InsertAttendance (issue SelectAttendanceFor (issue SelectEmployeeOutlet st)))
               \<lparr>attendance := attendance st
                  @ [\<lparr>att_id = Some (attendance_id (b ''employeeId'') (b ''date'')),
                       att_employee_id = None, att_date = Some d, att_status = Some s,
                       att_outlet = None\<rparr>]\<rparr>))"
proof -
  let ?st2 = "issue SelectAttendanceFor (issue SelectEmployeeOutlet st)"
  have outlet: "resolved_outlet (prepareValue (b ''employeeId'')) st = None"
    using none by (simp add: resolved_outlet_def select_employee_outlet_def)
  have rejected: "\<exists>err. post_attendance True b st
       = (respond 500 (StoreFailure err), issue InsertAttendance ?st2)"
    if E: "b ''employeeId'' = JStr e" for e
  proof -
    from none E have noid: "Some e \<notin> set (map emp_id (employees st))"
      using no_employee_no_id [of e st] by simp
    with ok have norow: "filter (att_match (Some e) q) (attendance st) = []" for q
      by (rule no_employee_no_attendance)
    have fk: "varchar 255 (Some e) \<notin> set (map emp_id (employees st))"
      if "\<not> too_long 255 (Some (attendance_id (b ''employeeId'') (b ''date'')))"
    proof -
      from that E have "length e < 255"
        by (auto simp: attendance_id_def intro: id_fits_employee_short)
      with noid show ?thesis by simp
    qed
    have "\<exists>err. upsert_store b st = (Inl err, issue InsertAttendance ?st2)"
      using E norow fk outlet
      by (auto simp: upsert_store_def Let_def insert_attendance_def)
    then show ?thesis by (auto simp: post_attendance_upsert_store)
  qed
  have recorded: "post_attendance True b st
          = (respond 201 (Attendance
               \<lparr>aj_id = Some (attendance_id (b ''employeeId'') (b ''date'')),
                  aj_employeeId = None, aj_date = Some d, aj_status = Some s,
                  aj_outlet = None\<rparr>),
             (issue InsertAttendance ?st2)
               \<lparr>attendance := attendance st
                  @ [\<lparr>att_id = Some (attendance_id (b ''employeeId'') (b ''date'')),
                       att_employee_id = None, att_date = Some d, att_status = Some s,
                       att_outlet = None\<rparr>]\<rparr>)"
    if "prepareValue (b ''employeeId'') = None" "b ''date'' = JStr d" "b ''status'' = JStr s"
       "length (attendance_id (b ''employeeId'') (b ''date'')) \<le> 255" "length s \<le> 50"
       "Some (attendance_id (b ''employeeId'') (b ''date'')) \<notin> set (map att_id (attendance st))"
    for d s
  proof -
    from that have "length d \<le> 255" by (simp add: attendance_id_def)
    with that outlet show ?thesis
      by (simp add: post_attendance_upsert_store upsert_store_def Let_def insert_attendance_def
            fits_not_too_long to_json_def)
  qed
  from outlet rejected recorded show ?thesis by blast
qed

text \<open>
  Both cases at the store that holds Ann alone: a request for \<^verbatim>\<open>emp-2\<close>, and a
  request without \<^verbatim>\<open>employeeId\<close>.
\<close>

theorem upsert_unknown_employee_witness:
  "schema_ok north_store
   \<and> filter (\<lambda>r. sql_eq (emp_id r) (prepareValue (stranger_body ''employeeId'')))
        (employees north_store) = []
   \<and> filter (\<lambda>r. sql_eq (emp_id r) (prepareValue (anonymous_body ''employeeId'')))
        (employees north_store) = []
   \<and> resolved_outlet (prepareValue (stranger_body ''employeeId'')) north_store = None
   \<and> (\<exists>err. post_attendance True stranger_body north_store
         = (respond 500 (StoreFailure err),
            issue InsertAttendance (issue SelectAttendanceFor
              (issue SelectEmployeeOutlet north_store))))
   \<and> fst (post_attendance True anonymous_body north_store)
       = respond 201 (Attendance \<lparr>aj_id = Some ''undefined-2024-01-01'', aj_employeeId = None,
           aj_date = Some ''2024-01-01'', aj_status = Some ''present'', aj_outlet = None\<rparr>)"
proof -
  have n1: "filter (\<lambda>r. sql_eq (emp_id r) (prepareValue (stranger_body ''employeeId'')))
        (employees north_store) = []"
    by (simp add: stranger_body_def north_store_def empty_store_def ann_def sql_eq_def)
  have n2: "filter (\<lambda>r. sql_eq (emp_id r) (prepareValue (anonymous_body ''employeeId'')))
        (employees north_store) = []"
    by (simp add: anonymous_body_def no_fields_def sql_eq_def)
  have e: "stranger_body ''employeeId'' = JStr ''emp-2''" by (simp add: stranger_body_def)
  have a: "prepareValue (anonymous_body ''employeeId'') = None"
      "anonymous_body ''date'' = JStr ''2024-01-01''"
      "anonymous_body ''status'' = JStr ''present''"
      "attendance_id (anonymous_body ''employeeId'') (anonymous_body ''date'')
         = ''undefined-2024-01-01''"
    by (simp_all add: anonymous_body_def no_fields_def attendance_id_def)
  have f: "attendance north_store = []" by (simp add: north_store_def empty_store_def)
  from upsert_unknown_employee [where st = north_store and b = stranger_body,
        OF schema_ok_north n1]
    upsert_unknown_employee [where st = north_store and b = anonymous_body,
        OF schema_ok_north n2] schema_ok_north n1 n2 e a f
  show ?thesis by simp
qed

text \<open>
  The claim as stated fails: no employee has the id \<^verbatim>\<open>emp-2\<close>, and the upsert for
  it is answered 500 with the foreign key violation and records nothing.
\<close>

theorem upsert_unknown_employee_counterexample:
  "filter (\<lambda>r. emp_id r = Some ''emp-2'') (employees north_store) = []
   \<and> stranger_body ''employeeId'' = JStr ''emp-2''
   \<and> fst (post_attendance True stranger_body north_store)
       = respond 500 (StoreFailure ForeignKeyViolation)
   \<and> attendance (snd (post_attendance True stranger_body north_store)) = []"
  by (simp add: post_attendance_upsert_store upsert_store_def Let_def insert_attendance_def
        north_store_def empty_store_def ann_def stranger_body_def no_fields_def
        attendance_id_def too_long_def resolved_outlet_def select_employee_outlet_def
        sql_eq_def)

section \<open>Deleting an employee\<close>

lemma filter_column_eq: "(filter (\<lambda>r. f r = v) xs \<noteq> []) = (v \<in> set (map f xs))"
  by (induction xs) auto

lemma cascade_keeps_empty:
  "filter P (attendance st1) = [] \<Longrightarrow> filter P (attendance (snd (delete_employee p st1))) = []"
  by (simp add: filter_empty_conv)

text \<open>
  Claim C6. After \<^verbatim>\<open>DELETE /api/employees/:id\<close> no attendance row references the
  id. The handler issues \<^verbatim>\<open>DELETE FROM attendance WHERE employee_id = $1\<close> and then
  \<^verbatim>\<open>DELETE FROM employees WHERE id = $1\<close>, in this order, and already after the
  first statement no attendance row references the id: the cascade is the
  handler's own. The request is answered 200 with \<^verbatim>\<open>{ success: true }\<close> exactly when
  an employee with the id exists.
\<close>

theorem delete_employee_cascade:
  "filter (\<lambda>r. att_employee_id r = Some eid)
     (attendance (snd (delete_employees True eid st))) = []
   \<and> filter (\<lambda>r. att_employee_id r = Some eid)
       (attendance (delete_attendance_of_employee (Some eid) st)) = []
   \<and> issued (snd (delete_employees True eid st))
       = issued st @ [DeleteAttendanceOfEmployee, DeleteEmployee]
   \<and> (fst (delete_employees True eid st) = respond 200 Success)
       = (Some eid \<in> set (map emp_id (employees st)))"
proof -
  have explicit: "filter (\<lambda>r. att_employee_id r = Some eid)
       (attendance (delete_attendance_of_employee (Some eid) st)) = []"
    by (simp add: filter_empty_conv sql_eq_def)
  then have after: "filter (\<lambda>r. att_employee_id r = Some eid)
       (attendance (snd (delete_employees True eid st))) = []"
    by (simp only: snd_delete_employees if_True cascade_keeps_empty)
  have log: "issued (snd (delete_employees True eid st))
       = issued st @ [DeleteAttendanceOfEmployee, DeleteEmployee]"
    by (simp add: snd_delete_employees delete_employee_def delete_attendance_of_employee_def
          Let_def)
  have "(fst (delete_employees True eid st) = respond 200 Success)
       = (filter (\<lambda>r. emp_id r = Some eid) (employees st) \<noteq> [])"
    by (simp add: delete_employees_def delete_employee_def delete_attendance_of_employee_def
          Let_def respond_def sql_eq_def)
  also have "\<dots> = (Some eid \<in> set (map emp_id (employees st)))"
    by (rule filter_column_eq)
  finally have found: "(fst (delete_employees True eid st) = respond 200 Success)
       = (Some eid \<in> set (map emp_id (employees st)))" .
  from explicit after log found show ?thesis by blast
qed

text \<open>Deleting Ann, who has one attendance row.\<close>

theorem delete_employee_cascade_witness:
  "attendance south_store = [day_row] \<and> att_employee_id day_row = Some ''emp-1''
   \<and> fst (delete_employees True ''emp-1'' south_store) = respond 200 Success
   \<and> filter (\<lambda>r. att_employee_id r = Some ''emp-1'')
        (attendance (snd (delete_employees True ''emp-1'' south_store))) = []
   \<and> issued (snd (delete_employees True ''emp-1'' south_store))
       = [DeleteAttendanceOfEmployee, DeleteEmployee]"
  using delete_employee_cascade [of "''emp-1''" south_store]
  by (simp add: south_store_def empty_store_def day_row_def ann_def)

section \<open>Creating without a name\<close>

lemma decimal_1: "decimal (Suc 0) = ''1''"
  by (simp add: decimal.simps digit_char_def)

text \<open>
  Claim C4, as amended. When the body of \<^verbatim>\<open>POST /api/employees\<close> or of
  \<^verbatim>\<open>POST /api/departments\<close> has no \<^verbatim>\<open>name\<close>, the handler sends the \<^verbatim>\<open>INSERT\<close> all
  the same; the store rejects it, and the request is answered 500 with the message
  of the store: the \<^verbatim>\<open>NOT NULL\<close> violation, or the error of a value that is too
  long for its column when there is one. The tables are unchanged.
\<close>

theorem create_without_name:
  assumes "b ''name'' = JUndefined"
  shows "(\<exists>err. (err = NotNullViolation \<or> err = StringTooLong)
            \<and> post_employees True now b st
                = (respond 500 (StoreFailure err), issue InsertEmployee st))
       \<and> (\<exists>err. (err = NotNullViolation \<or> err = StringTooLong)
            \<and> post_departments True now b st
                = (respond 500 (StoreFailure err), issue InsertDepartment st))"
proof
  show "\<exists>err. (err = NotNullViolation \<or> err = StringTooLong)
            \<and> post_employees True now b st
                = (respond 500 (StoreFailure err), issue InsertEmployee st)"
    using assms by (auto simp: post_employees_def insert_employee_def Let_def)
  show "\<exists>err. (err = NotNullViolation \<or> err = StringTooLong)
            \<and> post_departments True now b st
                = (respond 500 (StoreFailure err), issue InsertDepartment st)"
    using assms by (auto simp: post_departments_def insert_department_def Let_def)
qed

text \<open>An empty body.\<close>

theorem create_without_name_witness:
  "no_fields ''name'' = JUndefined
   \<and> post_employees True 1 no_fields empty_store
       = (respond 500 (StoreFailure NotNullViolation), issue InsertEmployee empty_store)
   \<and> post_departments True 1 no_fields empty_store
       = (respond 500 (StoreFailure NotNullViolation), issue InsertDepartment empty_store)"
proof -
  have n: "no_fields ''name'' = JUndefined" by (simp add: no_fields_def)
  have "fst (post_employees True 1 no_fields empty_store)
          \<noteq> respond 500 (StoreFailure StringTooLong)"
    "fst (post_departments True 1 no_fields empty_store)
          \<noteq> respond 500 (StoreFailure StringTooLong)"
    by (simp_all add: post_employees_def post_departments_def insert_employee_def
          insert_department_def Let_def no_fields_def decimal_1 too_long_def respond_def)
  with create_without_name [where b = no_fields and now = 1 and st = empty_store, OF n] n
  show ?thesis by auto
qed

text \<open>
  The claim as stated fails: the answer to a body without \<^verbatim>\<open>name\<close> has status 500,
  which is not a 4xx, and its body is the error of the store.
\<close>

theorem create_without_name_counterexample:
  "status (fst (post_employees True 1 no_fields empty_store)) = 500
   \<and> json (fst (post_employees True 1 no_fields empty_store)) = StoreFailure NotNullViolation
   \<and> \<not> (400 \<le> status (fst (post_employees True 1 no_fields empty_store))
         \<and> status (fst (post_employees True 1 no_fields empty_store)) < 500)
   \<and> status (fst (post_departments True 1 no_fields empty_store)) = 500
   \<and> json (fst (post_departments True 1 no_fields empty_store)) = StoreFailure NotNullViolation"
  by (simp add: post_employees_def post_departments_def insert_employee_def
        insert_department_def Let_def no_fields_def decimal_1 too_long_def respond_def)

section \<open>Defaults of the optional properties\<close>

lemma post_ann:
  "post_employees True 1 ann_body empty_store
     = (respond 201 (Employee ann), north_store\<lparr>issued := [InsertEmployee]\<rparr>)"
  by (simp add: post_employees_def insert_employee_def Let_def ann_body_def no_fields_def
        empty_store_def north_store_def ann_def decimal_1 too_long_def issue_def)

lemma post_sales:
  "post_departments True 1 sales_body empty_store
     = (respond 201 (Department sales),
        empty_store\<lparr>departments := [sales], issued := [InsertDepartment]\<rparr>)"
  by (simp add: post_departments_def insert_department_def Let_def sales_body_def no_fields_def
        empty_store_def sales_def decimal_1 too_long_def issue_def)

text \<open>
  Claim C3, as amended. When \<^verbatim>\<open>POST /api/employees\<close> answers 201 with a row, the
  row has the empty string in \<^verbatim>\<open>email\<close>, \<^verbatim>\<open>address\<close> and \<^verbatim>\<open>department\<close> where the
  request left the property out, and \<^verbatim>\<open>NULL\<close> in \<^verbatim>\<open>phone\<close> and \<^verbatim>\<open>outlet\<close> where
  the request left the property out; \<^verbatim>\<open>GET /api/employees\<close> on the store after the
  request answers with all rows, among which the created row occurs exactly once.
  Likewise for \<^verbatim>\<open>POST /api/departments\<close>: \<^verbatim>\<open>description\<close> defaults to the empty
  string, \<^verbatim>\<open>outlet\<close> to \<^verbatim>\<open>NULL\<close>.
\<close>

theorem create_defaults:
  "(post_employees True now b st = (respond 201 (Employee row), st') \<longrightarrow>
      (b ''email'' = JUndefined \<longrightarrow> emp_email row = Some [])
    \<and> (b ''address'' = JUndefined \<longrightarrow> emp_address row = Some [])
    \<and> (b ''department'' = JUndefined \<longrightarrow> emp_department row = Some [])
    \<and> (b ''phone'' = JUndefined \<longrightarrow> emp_phone row = None)
    \<and> (b ''outlet'' = JUndefined \<longrightarrow> emp_outlet row = None)
    \<and> fst (get_employees True st') = respond 200 (Employees (employees st'))
    \<and> count_list (employees st') row = 1)
 \<and> (post_departments True now b st = (respond 201 (Department drow), st'') \<longrightarrow>
      (b ''description'' = JUndefined \<longrightarrow> dept_description drow = Some [])
    \<and> (b ''outlet'' = JUndefined \<longrightarrow> dept_outlet drow = None)
    \<and> fst (get_departments True st'') = respond 200 (Departments (departments st''))
    \<and> count_list (departments st'') drow = 1)"
proof (intro conjI impI)
  assume created: "post_employees True now b st = (respond 201 (Employee row), st')"
  let ?ins = "insert_employee (Some (''emp-'' @ decimal now)) (prepareValue (b ''name''))
      (prepareValue (or_empty (b ''email''))) (prepareValue (b ''phone''))
      (prepareValue (or_empty (b ''address''))) (prepareValue (or_empty (b ''department'')))
      (prepareValue (b ''outlet'')) st"
  from created have ins: "?ins = (Inr [row], st')"
    by (auto simp: post_employees_def Let_def respond_def insert_employee_def
          split: if_splits)
  then have row: "row = \<lparr>emp_id = Some (take 255 (''emp-'' @ decimal now)),
        emp_name = varchar 255 (prepareValue (b ''name'')),
        emp_email = varchar 255 (prepareValue (or_empty (b ''email''))),
        emp_phone = varchar 255 (prepareValue (b ''phone'')),
        emp_address = prepareValue (or_empty (b ''address'')),
        emp_department = varchar 255 (prepareValue (or_empty (b ''department''))),
        emp_outlet = varchar 255 (prepareValue (b ''outlet''))\<rparr>"
    and st': "employees st' = employees st @ [row]"
    and new: "emp_id row \<notin> set (map emp_id (employees st))"
    by (auto simp: insert_employee_def Let_def split: if_splits)
  from row show "emp_email row = Some []" if "b ''email'' = JUndefined"
    using that by simp
  from row show "emp_address row = Some []" if "b ''address'' = JUndefined"
    using that by simp
  from row show "emp_department row = Some []" if "b ''department'' = JUndefined"
    using that by simp
  from row show "emp_phone row = None" if "b ''phone'' = JUndefined"
    using that by simp
  from row show "emp_outlet row = None" if "b ''outlet'' = JUndefined"
    using that by simp
  show "fst (get_employees True st') = respond 200 (Employees (employees st'))"
    by (simp add: get_employees_def select_employees_def)
  from new have "row \<notin> set (employees st)" by auto
  then show "count_list (employees st') row = 1" by (simp add: st' count_list_0_iff)
next
  assume created: "post_departments True now b st = (respond 201 (Department drow), st'')"
  let ?ins = "insert_department (Some (''dept-'' @ decimal now)) (prepareValue (b ''name''))
      (prepareValue (or_empty (b ''description''))) (prepareValue (b ''outlet'')) st"
  from created have ins: "?ins = (Inr [drow], st'')"
    by (auto simp: post_departments_def Let_def respond_def insert_department_def
          split: if_splits)
  then have row: "drow = \<lparr>dept_id = Some (take 255 (''dept-'' @ decimal now)),
        dept_name = varchar 255 (prepareValue (b ''name'')),
        dept_description = prepareValue (or_empty (b ''description'')),
        dept_outlet = varchar 255 (prepareValue (b ''outlet''))\<rparr>"
    and st'': "departments st'' = departments st @ [drow]"
    and new: "dept_id drow \<notin> set (map dept_id (departments st))"
    by (auto simp: insert_department_def Let_def split: if_splits)
  from row show "dept_description drow = Some []" if "b ''description'' = JUndefined"
    using that by simp
  from row show "dept_outlet drow = None" if "b ''outlet'' = JUndefined"
    using that by simp
  show "fst (get_departments True st'') = respond 200 (Departments (departments st''))"
    by (simp add: get_departments_def select_departments_def)
  from new have "drow \<notin> set (departments st)" by auto
  then show "count_list (departments st'') drow = 1" by (simp add: st'' count_list_0_iff)
qed

text \<open>
  Creating Ann (name and outlet) and the department Sales (name and outlet) in the
  empty store, at \<^verbatim>\<open>Date.now() = 1\<close>.
\<close>

theorem create_defaults_witness:
  "post_employees True 1 ann_body empty_store
     = (respond 201 (Employee ann), north_store\<lparr>issued := [InsertEmployee]\<rparr>)
   \<and> ann_body ''email'' = JUndefined \<and> emp_email ann = Some []
   \<and> ann_body ''address'' = JUndefined \<and> emp_address ann = Some []
   \<and> ann_body ''department'' = JUndefined \<and> emp_department ann = Some []
   \<and> ann_body ''phone'' = JUndefined \<and> emp_phone ann = None
   \<and> fst (get_employees True (north_store\<lparr>issued := [InsertEmployee]\<rparr>))
       = respond 200 (Employees [ann])
   \<and> count_list [ann] ann = 1
   \<and> post_departments True 1 sales_body empty_store
       = (respond 201 (Department sales),
          empty_store\<lparr>departments := [sales], issued := [InsertDepartment]\<rparr>)
   \<and> sales_body ''description'' = JUndefined \<and> dept_description sales = Some []
   \<and> fst (get_departments True
            (empty_store\<lparr>departments := [sales], issued := [InsertDepartment]\<rparr>))
       = respond 200 (Departments [sales])"
proof -
  have b: "ann_body ''email'' = JUndefined" "ann_body ''address'' = JUndefined"
      "ann_body ''department'' = JUndefined" "ann_body ''phone'' = JUndefined"
      "sales_body ''description'' = JUndefined"
    by (simp_all add: ann_body_def sales_body_def no_fields_def)
  have t: "employees (north_store\<lparr>issued := [InsertEmployee]\<rparr>) = [ann]"
      "departments (empty_store\<lparr>departments := [sales], issued := [InsertDepartment]\<rparr>)
         = [sales]"
    by (simp_all add: north_store_def empty_store_def)
  from create_defaults [of 1 ann_body empty_store ann
      "north_store\<lparr>issued := [InsertEmployee]\<rparr>" sales
      "empty_store\<lparr>departments := [sales], issued := [InsertDepartment]\<rparr>"]
    create_defaults [of 1 sales_body empty_store ann
      "north_store\<lparr>issued := [InsertEmployee]\<rparr>" sales
      "empty_store\<lparr>departments := [sales], issued := [InsertDepartment]\<rparr>"]
    post_ann post_sales b t
  show ?thesis by simp
qed

text \<open>
  The claim as stated fails: Ann's request has no \<^verbatim>\<open>phone\<close>, and the created row
  holds \<^verbatim>\<open>NULL\<close> there, not the empty string; a department created without
  \<^verbatim>\<open>outlet\<close> holds \<^verbatim>\<open>NULL\<close> there.
\<close>

theorem create_defaults_counterexample:
  "post_employees True 1 ann_body empty_store
     = (respond 201 (Employee ann), north_store\<lparr>issued := [InsertEmployee]\<rparr>)
   \<and> ann_body ''phone'' = JUndefined \<and> emp_phone ann = None \<and> emp_phone ann \<noteq> Some []
   \<and> fst (post_departments True 1 (no_fields(''name'' := JStr ''Sales'')) empty_store)
       = respond 201 (Department (sales\<lparr>dept_outlet := None\<rparr>))
   \<and> dept_outlet (sales\<lparr>dept_outlet := None\<rparr>) \<noteq> Some []"
  using post_ann
  by (simp add: ann_body_def no_fields_def ann_def post_departments_def insert_department_def
        Let_def empty_store_def sales_def decimal_1 too_long_def)

section \<open>One attendance row per employee and date\<close>

lemma issued_upsert_store:
  "issued (snd (upsert_store b st))
   = issued st @ [SelectEmployeeOutlet, SelectAttendanceFor,
       if filter (att_match (prepareValue (b ''employeeId'')) (prepareValue (b ''date'')))
            (attendance st) \<noteq> []
       then UpdateAttendanceStatus else InsertAttendance]"
  by (simp add: upsert_store_def Let_def update_attendance_status_def insert_attendance_def)

text \<open>
  Claim C2, as amended. Requests are handled one after the other, and their
  bodies carry any JSON values. In every store that a sequence of requests reaches
  from the empty store, no two attendance rows with an employee (an
  \<^verbatim>\<open>employee_id\<close> that is not \<^verbatim>\<open>NULL\<close>) have the same employee and date; the
  same holds for every sequence of requests from a store that satisfies
  \<open>store_inv\<close>: the declared schema, no employee id that begins with a brace,
  synthesized attendance ids, and one row per employee and date. The upsert
  preserves the property in every such store, and it looks for a row of the pair
  before it writes: its statements are the select of the outlet, the select of the
  rows for the pair, and then the \<^verbatim>\<open>UPDATE\<close> if a row was found, the \<^verbatim>\<open>INSERT\<close> if
  none was.
\<close>

theorem one_row_per_employee_and_date:
  "one_row_per_pair (run pool rs empty_store)
   \<and> (store_inv st \<longrightarrow> one_row_per_pair (run pool rs st))
   \<and> (store_inv st \<longrightarrow> one_row_per_pair (snd (post_attendance True b st)))
   \<and> issued (snd (post_attendance True b st))
       = issued st @ [SelectEmployeeOutlet, SelectAttendanceFor,
           if filter (att_match (prepareValue (b ''employeeId'')) (prepareValue (b ''date'')))
                (attendance st) \<noteq> []
           then UpdateAttendanceStatus else InsertAttendance]"
proof (intro conjI impI)
  have "store_inv (run pool rs empty_store)" by (rule store_inv_run [OF store_inv_empty])
  then show "one_row_per_pair (run pool rs empty_store)" by (simp only: store_inv_def)
  show "one_row_per_pair (run pool rs st)" if "store_inv st"
    using store_inv_run [OF that, of pool rs] by (simp only: store_inv_def)
  show "one_row_per_pair (snd (post_attendance True b st))" if "store_inv st"
    using store_inv_upsert_store [OF that, of b]
    by (simp only: snd_post_attendance if_True store_inv_def)
  show "issued (snd (post_attendance True b st))
       = issued st @ [SelectEmployeeOutlet, SelectAttendanceFor,
           if filter (att_match (prepareValue (b ''employeeId'')) (prepareValue (b ''date'')))
                (attendance st) \<noteq> []
           then UpdateAttendanceStatus else InsertAttendance]"
    by (simp only: snd_post_attendance if_True issued_upsert_store)
qed

text \<open>
  Ann is created, marked present and then absent for the same day. In the store
  that holds Ann alone, a request whose date is the empty array and then one whose
  date is the string \<^verbatim>\<open>{}\<close> are for the same employee and date, and the second
  one finds the row of the first.
\<close>

theorem one_row_per_employee_and_date_witness:
  "store_inv north_store
   \<and> pairs (snd (post_attendance True present_body north_store))
       = [(Some ''emp-1'', Some ''2024-01-01'')]
   \<and> one_row_per_pair (snd (post_attendance True present_body north_store))
   \<and> one_row_per_pair (run True [POST_employees 1 ann_body, POST_attendance present_body,
        POST_attendance absent_body] empty_store)
   \<and> pairs (run True [POST_attendance array_body, POST_attendance brace_body] north_store)
       = [(Some ''emp-1'', Some ''{}'')]
   \<and> one_row_per_pair (run True [POST_attendance array_body, POST_attendance brace_body]
        north_store)"
proof -
  have inv: "store_inv north_store"
    by (simp add: store_inv_def schema_ok_def plain_ids_def one_row_per_pair_def pairs_def
          north_store_def empty_store_def ann_def employee_ok_def employee_fits_def)
  have p: "pairs (snd (post_attendance True present_body north_store))
       = [(Some ''emp-1'', Some ''2024-01-01'')]"
    by (simp add: snd_post_attendance upsert_store_def Let_def insert_attendance_def
          north_store_def empty_store_def ann_def present_body_def no_fields_def pairs_def
          attendance_id_def too_long_def resolved_outlet_def select_employee_outlet_def
          sql_eq_def)
  have q: "pairs (run True [POST_attendance array_body, POST_attendance brace_body] north_store)
       = [(Some ''emp-1'', Some ''{}'')]"
    by (simp add: snd_post_attendance upsert_store_def Let_def insert_attendance_def
          update_attendance_status_def att_match_def
          north_store_def empty_store_def ann_def array_body_def brace_body_def no_fields_def
          pairs_def attendance_id_def too_long_def resolved_outlet_def
          select_employee_outlet_def sql_eq_def)
  from inv p q
    one_row_per_employee_and_date [of True
      "[POST_employees 1 ann_body, POST_attendance present_body, POST_attendance absent_body]"
      north_store present_body]
    one_row_per_employee_and_date [of True
      "[POST_attendance array_body, POST_attendance brace_body]" north_store present_body]
  show ?thesis by simp
qed

text \<open>
  The claim as stated, for every pair, fails for rows without an employee: a
  request that leaves \<^verbatim>\<open>employeeId\<close> out and one that sends it as \<^verbatim>\<open>null\<close>, for
  the same date, are both inserted (their synthesized ids differ, and a \<^verbatim>\<open>NULL\<close>
  \<^verbatim>\<open>employee_id\<close> matches no row and satisfies the foreign key). The store then
  holds two rows whose employee is \<^verbatim>\<open>NULL\<close> and whose date is the same.
\<close>

theorem one_row_per_pair_counterexample:
  "all_pairs (run True [POST_attendance anonymous_body, POST_attendance null_body] empty_store)
     = [(None, Some ''2024-01-01''), (None, Some ''2024-01-01'')]
   \<and> \<not> distinct (all_pairs (run True [POST_attendance anonymous_body,
          POST_attendance null_body] empty_store))"
  by (simp add: snd_post_attendance upsert_store_def Let_def insert_attendance_def
        empty_store_def anonymous_body_def null_body_def no_fields_def all_pairs_def
        attendance_id_def too_long_def resolved_outlet_def select_employee_outlet_def)

text \<open>
  The order of the statements matters. When the two requests above are not
  handled one after the other, and each has selected the rows of its pair before
  the other has written, both find no row in the store that holds Ann alone, and
  both inserts are accepted: the ids are \<^verbatim>\<open>emp-1-\<close> and \<^verbatim>\<open>emp-1-{}\<close>, and both
  rows have the employee \<^verbatim>\<open>emp-1\<close> and the date \<^verbatim>\<open>{}\<close>. The primary key on the
  synthesized id does not stand in for the existence check.
\<close>

lemma inserts_after_both_selects:
  "filter (att_match (prepareValue (array_body ''employeeId''))
       (prepareValue (array_body ''date''))) (attendance north_store) = []
   \<and> filter (att_match (prepareValue (brace_body ''employeeId''))
       (prepareValue (brace_body ''date''))) (attendance north_store) = []
   \<and> map att_id (attendance (snd (insert_attendance
        (Some (attendance_id (brace_body ''employeeId'') (brace_body ''date'')))
        (prepareValue (brace_body ''employeeId'')) (prepareValue (brace_body ''date''))
        (prepareValue (brace_body ''status''))
        (resolved_outlet (prepareValue (brace_body ''employeeId'')) north_store)
        (snd (insert_attendance
           (Some (attendance_id (array_body ''employeeId'') (array_body ''date'')))
           (prepareValue (array_body ''employeeId'')) (prepareValue (array_body ''date''))
           (prepareValue (array_body ''status''))
           (resolved_outlet (prepareValue (array_body ''employeeId'')) north_store)
           north_store)))))
       = [Some ''emp-1-'', Some ''emp-1-{}'']
   \<and> pairs (snd (insert_attendance
        (Some (attendance_id (brace_body ''employeeId'') (brace_body ''date'')))
        (prepareValue (brace_body ''employeeId'')) (prepareValue (brace_body ''date''))
        (prepareValue (brace_body ''status''))
        (resolved_outlet (prepareValue (brace_body ''employeeId'')) north_store)
        (snd (insert_attendance
           (Some (attendance_id (array_body ''employeeId'') (array_body ''date'')))
           (prepareValue (array_body ''employeeId'')) (prepareValue (array_body ''date''))
           (prepareValue (array_body ''status''))
           (resolved_outlet (prepareValue (array_body ''employeeId'')) north_store)
           north_store))))
       = [(Some ''emp-1'', Some ''{}''), (Some ''emp-1'', Some ''{}'')]"
  by (simp add: insert_attendance_def Let_def north_store_def empty_store_def ann_def
        array_body_def brace_body_def no_fields_def pairs_def attendance_id_def too_long_def
        resolved_outlet_def select_employee_outlet_def sql_eq_def)

section \<open>The synthesized id\<close>

text \<open>
  Claim C10. The id \<^verbatim>\<open>`${employeeId}-${date}`\<close> does not determine the pair: moving
  a part of the date that ends before a hyphen over to the employee id gives the
  same id. \<^verbatim>\<open>(emp-1, 2-2024-01-01)\<close> and \<^verbatim>\<open>(emp-1-2, 2024-01-01)\<close> are one
  instance. In a store that satisfies the declared schema and holds a row of the
  second pair, no row exists for the first pair, and the upsert for it is answered
  500: its \<^verbatim>\<open>INSERT\<close> violates the primary key.
\<close>

theorem attendance_id_not_injective:
  "attendance_id (JStr (e @ ''-'' @ x)) (JStr d) = attendance_id (JStr e) (JStr (x @ ''-'' @ d))
   \<and> (JStr ''emp-1'', JStr ''2-2024-01-01'') \<noteq> (JStr ''emp-1-2'', JStr ''2024-01-01'')
   \<and> attendance_id (JStr ''emp-1'') (JStr ''2-2024-01-01'')
       = attendance_id (JStr ''emp-1-2'') (JStr ''2024-01-01'')
   \<and> schema_ok collision_store
   \<and> filter (att_match (Some ''emp-1'') (Some ''2-2024-01-01'')) (attendance collision_store)
       = []
   \<and> post_attendance True collision_body collision_store
       = (respond 500 (StoreFailure UniqueViolation),
          issue InsertAttendance (issue SelectAttendanceFor
            (issue SelectEmployeeOutlet collision_store)))"
proof (intro conjI)
  show "attendance_id (JStr (e @ ''-'' @ x)) (JStr d)
          = attendance_id (JStr e) (JStr (x @ ''-'' @ d))"
    by (simp add: attendance_id_def)
  show "(JStr ''emp-1'', JStr ''2-2024-01-01'') \<noteq> (JStr ''emp-1-2'', JStr ''2024-01-01'')"
    by simp
  show "attendance_id (JStr ''emp-1'') (JStr ''2-2024-01-01'')
       = attendance_id (JStr ''emp-1-2'') (JStr ''2024-01-01'')"
    by (simp add: attendance_id_def)
  show "schema_ok collision_store"
    by (simp add: schema_ok_def collision_store_def empty_store_def ann_def employee_ok_def
          employee_fits_def attendance_ok_def)
  show none: "filter (att_match (Some ''emp-1'') (Some ''2-2024-01-01''))
      (attendance collision_store) = []"
    by (simp add: collision_store_def empty_store_def att_match_def sql_eq_def)
  have "upsert_store collision_body collision_store
      = (Inl UniqueViolation, issue InsertAttendance (issue SelectAttendanceFor
            (issue SelectEmployeeOutlet collision_store)))"
    by (simp add: upsert_store_def Let_def insert_attendance_def collision_body_def
          no_fields_def none attendance_id_def too_long_def resolved_outlet_def
          select_employee_outlet_def)
       (simp add: collision_store_def empty_store_def ann_def sql_eq_def)
  then show "post_attendance True collision_body collision_store
       = (respond 500 (StoreFailure UniqueViolation),
          issue InsertAttendance (issue SelectAttendanceFor
            (issue SelectEmployeeOutlet collision_store)))"
    by (simp add: post_attendance_upsert_store)
qed

text \<open>Another instance of the first part.\<close>

theorem attendance_id_not_injective_witness:
  "attendance_id (JStr ''a-b'') (JStr ''c'') = attendance_id (JStr ''a'') (JStr ''b-c'')
   \<and> attendance_id (JStr ''a'') (JStr ''b-c'') = ''a-b-c''"
  using attendance_id_not_injective [of "''a''" "''b''" "''c''"]
  by (simp add: attendance_id_def)

end
